theory Spec2Isabelle
  imports Complex_Main "HOL-Library.AList" "HOL-Library.Monad_Syntax"
begin

section \<open>Static configuration (config.py)\<close>

text \<open>
  The closed set of posture labels and its bad subset, as \<^verbatim>\<open>config.py\<close> lists them,
  and the warning threshold constant of the same file.
\<close>

definition POSTURE_LABELS :: "string list" where
  "POSTURE_LABELS =
     [''Correct_posture'', ''Leaning_backward'', ''Leaning_forward'', ''Leaning_left'',
      ''Leaning_right'', ''Left_leg_crossed'', ''Right_leg_crossed'',
      ''Sitting_at_front_edge'', ''Upper_body_hunched'']"

definition BAD_POSTURES :: "string list" where
  "BAD_POSTURES =
     [''Leaning_backward'', ''Leaning_forward'', ''Leaning_left'', ''Leaning_right'',
      ''Left_leg_crossed'', ''Right_leg_crossed'', ''Sitting_at_front_edge'',
      ''Upper_body_hunched'']"

definition WARNING_THRESHOLD :: int where
  "WARNING_THRESHOLD = 3"

definition WARNING_TIME_LIMIT :: int where
  "WARNING_TIME_LIMIT = 300"

definition DEFAULT_MODE :: string where
  "DEFAULT_MODE = ''auto''"

definition DEFAULT_AUTO_THRESHOLD :: real where
  "DEFAULT_AUTO_THRESHOLD = 0.70"

definition DEFAULT_FUSION_WEIGHTS :: "(string \<times> real) list" where
  "DEFAULT_FUSION_WEIGHTS = [(''sensor'', 0.4), (''camera'', 0.6)]"

text \<open>\<^verbatim>\<open>FusionLogic.is_bad_posture\<close>: membership in \<^verbatim>\<open>config.BAD_POSTURES\<close>.\<close>

definition is_bad_posture :: "string \<Rightarrow> bool" where
  "is_bad_posture label = (label \<in> set BAD_POSTURES)"


section \<open>Warning tracker (routes/api.py)\<close>

text \<open>
  The module-level dictionary \<^verbatim>\<open>warning_tracker\<close> with its four keys. The count is a
  Python integer, the warned postures a Python set of labels, the last posture is
  \<^verbatim>\<open>None\<close> until the first request.
\<close>

record warning_tracker =
  last_posture :: "string option"
  consecutive_count :: int
  warning_threshold :: int
  warned_postures :: "string set"

definition warning_tracker_init :: warning_tracker where
  "warning_tracker_init =
     \<lparr>last_posture = None, consecutive_count = 0, warning_threshold = 5,
      warned_postures = {}\<rparr>"

text \<open>Python's truth value of \<^verbatim>\<open>warning_tracker['last_posture']\<close>: false for
  \<^verbatim>\<open>None\<close> and for the empty string.\<close>

definition truthy :: "string option \<Rightarrow> bool" where
  "truthy v = (case v of None \<Rightarrow> False | Some s \<Rightarrow> s \<noteq> [])"

text \<open>Lines 106 to 128 of \<^verbatim>\<open>predict\<close>: the update of the tracker for a new label.\<close>

definition update_tracker :: "string \<Rightarrow> bool \<Rightarrow> warning_tracker \<Rightarrow> warning_tracker" where
  "update_tracker label is_bad wt =
     (if last_posture wt \<noteq> Some label then
        (let wt1 =
               (if truthy (last_posture wt) \<and> the (last_posture wt) \<in> warned_postures wt
                then wt\<lparr>warned_postures := warned_postures wt - {the (last_posture wt)}\<rparr>
                else wt)
         in wt1\<lparr>last_posture := Some label,
                consecutive_count := (if is_bad then 1 else 0)\<rparr>)
      else if is_bad then wt\<lparr>consecutive_count := consecutive_count wt + 1\<rparr>
      else wt\<lparr>consecutive_count := 0\<rparr>)"

text \<open>Lines 130 to 150: the warning flag, and the label added to the warned set when the
  threshold is reached for the first time.\<close>

definition determine_warning :: "string \<Rightarrow> bool \<Rightarrow> warning_tracker \<Rightarrow> bool \<times> warning_tracker" where
  "determine_warning label is_bad wt =
     (if is_bad then
        (if label \<in> warned_postures wt then (True, wt)
         else
           (let warning_flag = (consecutive_count wt \<ge> warning_threshold wt)
            in if warning_flag
               then (True, wt\<lparr>warned_postures := insert label (warned_postures wt)\<rparr>)
               else (False, wt)))
      else (False, wt))"

text \<open>One request's warning update: the label is the arbiter's, its badness is looked up
  with \<open>is_bad_posture\<close>, the tracker is updated and the flag determined.\<close>

definition warning_step :: "string \<Rightarrow> warning_tracker \<Rightarrow> bool \<times> warning_tracker" where
  "warning_step label wt =
     determine_warning label (is_bad_posture label)
       (update_tracker label (is_bad_posture label) wt)"

text \<open>A sequence of requests: the flags in order and the tracker afterwards.\<close>

fun feed :: "warning_tracker \<Rightarrow> string list \<Rightarrow> bool list \<times> warning_tracker" where
  "feed wt [] = ([], wt)"
| "feed wt (l # ls) =
     (case warning_step l wt of
        (w, wt1) \<Rightarrow> (case feed wt1 ls of (ws, wt2) \<Rightarrow> (w # ws, wt2)))"

definition run_tracker :: "string list \<Rightarrow> warning_tracker" where
  "run_tracker ls = snd (feed warning_tracker_init ls)"

text \<open>The length of the uninterrupted streak of the last label at the end of a history.\<close>

definition streak :: "string list \<Rightarrow> int" where
  "streak ls = (case rev ls of [] \<Rightarrow> 0 | l # r \<Rightarrow> int (length (takeWhile (\<lambda>x. x = l) (l # r))))"


text \<open>The tracker that a non-empty history of labels leads to, in closed form.\<close>

definition tracker_after :: "string list \<Rightarrow> warning_tracker" where
  "tracker_after ls =
     \<lparr>last_posture = Some (last ls),
      consecutive_count = (if is_bad_posture (last ls) then streak ls else 0),
      warning_threshold = 5,
      warned_postures = (if is_bad_posture (last ls) \<and> 5 \<le> streak ls then {last ls} else {})\<rparr>"



section \<open>Python values shared by the adapters\<close>

text \<open>
  Exceptions are values. The classifiers behind the adapters (the fitted random forests,
  the label encoders, the pose network) are artifacts loaded from disk; they are taken as
  functions of their input that return a value or raise.
\<close>

datatype error =
    ModelNotLoaded
  | WrongSensorCount nat
  | NoPersonDetected
  | InvalidKeypointsShape nat
  | CameraFrameRequired
  | UnseenLabel nat
  | EmptyArray
  | EmptySequence
  | KeyError string
  | FeatureError
  | ClassifierError string

text \<open>A Python dictionary keeps its keys in insertion order, and assigning to a key that
  is present replaces the value in place: an association list under \<open>AList.update\<close>.\<close>

definition py_dict :: "('k \<times> 'v) list \<Rightarrow> ('k \<times> 'v) list" where
  "py_dict kvs = fold (\<lambda>(k, v) d. AList.update k v d) kvs []"

definition dict_keys :: "('k \<times> 'v) list \<Rightarrow> 'k list" where
  "dict_keys d = map fst d"

text \<open>\<^verbatim>\<open>d.get(k, default)\<close>.\<close>

definition dict_get :: "('k \<times> 'v) list \<Rightarrow> 'k \<Rightarrow> 'v \<Rightarrow> 'v" where
  "dict_get d k dflt = (case map_of d k of None \<Rightarrow> dflt | Some v \<Rightarrow> v)"

text \<open>\<^verbatim>\<open>probabilities.max()\<close> of a NumPy array, which raises on an empty array.\<close>

fun array_max :: "real list \<Rightarrow> error + real" where
  "array_max [] = Inl EmptyArray"
| "array_max [x] = Inr x"
| "array_max (x # y # ys) = (case array_max (y # ys) of Inl e \<Rightarrow> Inl e | Inr m \<Rightarrow> Inr (max x m))"

text \<open>\<^verbatim>\<open>label_encoder.inverse_transform(prediction)[0]\<close>: the class of an encoded label,
  an error for a code the encoder has not seen.\<close>

definition inverse_transform :: "string list \<Rightarrow> nat \<Rightarrow> error + string" where
  "inverse_transform classes p = (if p < length classes then Inr (classes ! p) else Inl (UnseenLabel p))"


section \<open>Sensor adapter (models/sensor_model.py)\<close>

record sensor_model =
  sm_is_loaded :: bool
  sm_model_predict :: "real list \<Rightarrow> error + nat"
  sm_model_predict_proba :: "real list \<Rightarrow> error + real list"
  sm_classes :: "string list"

text \<open>\<^verbatim>\<open>SensorModel.predict\<close>.\<close>

definition sm_predict :: "sensor_model \<Rightarrow> real list \<Rightarrow> error + (string \<times> real)" where
  "sm_predict sm sensor_values =
     (if \<not> sm_is_loaded sm then Inl ModelNotLoaded
      else if length sensor_values \<noteq> 7 then Inl (WrongSensorCount (length sensor_values))
      else
        (case sm_model_predict sm sensor_values of
           Inl e \<Rightarrow> Inl e
         | Inr prediction \<Rightarrow>
            (case sm_model_predict_proba sm sensor_values of
               Inl e \<Rightarrow> Inl e
             | Inr probabilities \<Rightarrow>
                (case inverse_transform (sm_classes sm) prediction of
                   Inl e \<Rightarrow> Inl e
                 | Inr predicted_label \<Rightarrow>
                    (case array_max probabilities of
                       Inl e \<Rightarrow> Inl e
                     | Inr confidence \<Rightarrow> Inr (predicted_label, confidence))))))"

text \<open>\<^verbatim>\<open>SensorModel.get_all_probabilities\<close>.\<close>

definition sm_get_all_probabilities :: "sensor_model \<Rightarrow> real list \<Rightarrow> error + (string \<times> real) list" where
  "sm_get_all_probabilities sm sensor_values =
     (if \<not> sm_is_loaded sm then Inl ModelNotLoaded
      else if length sensor_values \<noteq> 7 then Inl (WrongSensorCount (length sensor_values))
      else
        (case sm_model_predict_proba sm sensor_values of
           Inl e \<Rightarrow> Inl e
         | Inr probabilities \<Rightarrow> Inr (py_dict (zip (sm_classes sm) probabilities))))"


section \<open>Camera adapter: features (models/camera_model.py)\<close>

type_synonym point = "real \<times> real"

definition RELEVANT_KEYPOINTS :: "nat list" where
  "RELEVANT_KEYPOINTS = [0, 1, 2, 3, 4, 5, 6, 11, 12, 13, 14, 15, 16]"

text \<open>
  Reading a keypoint raises IndexError past the end of the array. A NumPy division by
  zero gives inf or nan, which no real number is. Both are the value \<open>None\<close> here, so that
  a feature vector that is \<open>Some\<close> was computed without either.
\<close>

definition kp_at :: "point list \<Rightarrow> nat \<Rightarrow> point option" where
  "kp_at keypoints idx = (if idx < length keypoints then Some (keypoints ! idx) else None)"

definition np_divide :: "real \<Rightarrow> real \<Rightarrow> real option" where
  "np_divide x y = (if y = 0 then None else Some (x / y))"

definition np_dot :: "point \<Rightarrow> point \<Rightarrow> real" where
  "np_dot v1 v2 = fst v1 * fst v2 + snd v1 * snd v2"

definition np_norm :: "point \<Rightarrow> real" where
  "np_norm v = sqrt ((fst v)\<^sup>2 + (snd v)\<^sup>2)"

definition np_clip :: "real \<Rightarrow> real \<Rightarrow> real \<Rightarrow> real" where
  "np_clip x lo hi = min (max x lo) hi"

definition np_degrees :: "real \<Rightarrow> real" where
  "np_degrees a = a * 180 / pi"

definition calculate_angle :: "point \<Rightarrow> point \<Rightarrow> point \<Rightarrow> real option" where
  "calculate_angle p1 p2 p3 =
     (let v1 = (fst p1 - fst p2, snd p1 - snd p2);
          v2 = (fst p3 - fst p2, snd p3 - snd p2)
      in do {
        cos_angle \<leftarrow> np_divide (np_dot v1 v2) (np_norm v1 * np_norm v2 + 0.000001);
        Some (np_degrees (arccos (np_clip cos_angle (-1) 1)))
      })"

definition calculate_distance :: "point \<Rightarrow> point \<Rightarrow> real" where
  "calculate_distance p1 p2 = sqrt ((fst p1 - fst p2)\<^sup>2 + (snd p1 - snd p2)\<^sup>2)"

definition extract_derived_features :: "point list \<Rightarrow> (string \<times> real) list option" where
  "extract_derived_features keypoints = do {
     nose \<leftarrow> kp_at keypoints 0;
     left_shoulder \<leftarrow> kp_at keypoints 5;
     right_shoulder \<leftarrow> kp_at keypoints 6;
     left_hip \<leftarrow> kp_at keypoints 11;
     right_hip \<leftarrow> kp_at keypoints 12;
     left_knee \<leftarrow> kp_at keypoints 13;
     right_knee \<leftarrow> kp_at keypoints 14;
     left_ankle \<leftarrow> kp_at keypoints 15;
     right_ankle \<leftarrow> kp_at keypoints 16;
     let shoulder_center = ((fst left_shoulder + fst right_shoulder) / 2,
                            (snd left_shoulder + snd right_shoulder) / 2);
     let hip_center = ((fst left_hip + fst right_hip) / 2,
                       (snd left_hip + snd right_hip) / 2);
     back_angle \<leftarrow> calculate_angle nose shoulder_center hip_center;
     left_knee_angle \<leftarrow> calculate_angle left_hip left_knee left_ankle;
     right_knee_angle \<leftarrow> calculate_angle right_hip right_knee right_ankle;
     left_hip_angle \<leftarrow> calculate_angle left_shoulder left_hip left_knee;
     right_hip_angle \<leftarrow> calculate_angle right_shoulder right_hip right_knee;
     let torso_length = calculate_distance shoulder_center hip_center + 0.000001;
     nose_to_shoulder_dist \<leftarrow> np_divide (calculate_distance nose shoulder_center) torso_length;
     shoulder_width \<leftarrow> np_divide (calculate_distance left_shoulder right_shoulder) torso_length;
     hip_width \<leftarrow> np_divide (calculate_distance left_hip right_hip) torso_length;
     let shoulder_y_diff = \<bar>snd left_shoulder - snd right_shoulder\<bar>;
     let shoulder_x_diff = \<bar>fst left_shoulder - fst right_shoulder\<bar>;
     let hip_y_diff = \<bar>snd left_hip - snd right_hip\<bar>;
     let hip_x_diff = \<bar>fst left_hip - fst right_hip\<bar>;
     let nose_shoulder_y_diff = snd nose - snd shoulder_center;
     let shoulder_hip_y_diff = snd shoulder_center - snd hip_center;
     knee_distance \<leftarrow> np_divide (calculate_distance left_knee right_knee) torso_length;
     ankle_distance \<leftarrow> np_divide (calculate_distance left_ankle right_ankle) torso_length;
     knee_ankle_ratio \<leftarrow> np_divide knee_distance (ankle_distance + 0.000001);
     shoulder_hip_ratio \<leftarrow> np_divide shoulder_width (hip_width + 0.000001);
     Some [(''back_angle'', back_angle),
           (''left_knee_angle'', left_knee_angle),
           (''right_knee_angle'', right_knee_angle),
           (''left_hip_angle'', left_hip_angle),
           (''right_hip_angle'', right_hip_angle),
           (''nose_to_shoulder_dist'', nose_to_shoulder_dist),
           (''shoulder_width'', shoulder_width),
           (''hip_width'', hip_width),
           (''shoulder_y_diff'', shoulder_y_diff),
           (''shoulder_x_diff'', shoulder_x_diff),
           (''hip_y_diff'', hip_y_diff),
           (''hip_x_diff'', hip_x_diff),
           (''nose_shoulder_y_diff'', nose_shoulder_y_diff),
           (''shoulder_hip_y_diff'', shoulder_hip_y_diff),
           (''knee_distance'', knee_distance),
           (''ankle_distance'', ankle_distance),
           (''knee_ankle_ratio'', knee_ankle_ratio),
           (''shoulder_hip_ratio'', shoulder_hip_ratio)]
   }"

text \<open>The loop over \<^verbatim>\<open>RELEVANT_KEYPOINTS\<close>: the two coordinates of each listed keypoint.\<close>

fun raw_keypoints :: "point list \<Rightarrow> nat list \<Rightarrow> real list option" where
  "raw_keypoints keypoints [] = Some []"
| "raw_keypoints keypoints (idx # idxs) = do {
     p \<leftarrow> kp_at keypoints idx;
     rest \<leftarrow> raw_keypoints keypoints idxs;
     Some (fst p # snd p # rest)
   }"

definition extract_features :: "point list \<Rightarrow> real list option" where
  "extract_features keypoints = do {
     features_list \<leftarrow> raw_keypoints keypoints RELEVANT_KEYPOINTS;
     derived \<leftarrow> extract_derived_features keypoints;
     Some (features_list @ map snd derived)
   }"

text \<open>The coordinates of the listed keypoints, read without a range check, and the
  names of the derived features in the order the dictionary receives them.\<close>

definition raw_coordinates :: "point list \<Rightarrow> nat list \<Rightarrow> real list" where
  "raw_coordinates keypoints idxs = concat (map (\<lambda>idx. [fst (keypoints ! idx), snd (keypoints ! idx)]) idxs)"

definition derived_names :: "string list" where
  "derived_names =
     [''back_angle'', ''left_knee_angle'', ''right_knee_angle'', ''left_hip_angle'',
      ''right_hip_angle'', ''nose_to_shoulder_dist'', ''shoulder_width'', ''hip_width'',
      ''shoulder_y_diff'', ''shoulder_x_diff'', ''hip_y_diff'', ''hip_x_diff'',
      ''nose_shoulder_y_diff'', ''shoulder_hip_y_diff'', ''knee_distance'', ''ankle_distance'',
      ''knee_ankle_ratio'', ''shoulder_hip_ratio'']"

text \<open>Two sets of seventeen keypoints: one with distinct coordinates, and the degenerate
  pose whose points all coincide.\<close>

definition example_keypoints :: "point list" where
  "example_keypoints =
     [(0, 100), (1, 101), (2, 102), (3, 103), (4, 104), (5, 105), (6, 106), (7, 107),
      (8, 108), (9, 109), (10, 110), (11, 111), (12, 112), (13, 113), (14, 114), (15, 115),
      (16, 116)]"

definition degenerate_keypoints :: "point list" where
  "degenerate_keypoints = replicate 17 (0, 0)"


section \<open>Camera adapter: prediction (models/camera_model.py)\<close>

text \<open>
  The pose network is applied to whatever frame it is handed (\<^verbatim>\<open>None\<close> included) and
  gives the keypoint arrays of \<^verbatim>\<open>results[0]\<close>, one per detected person, or raises.
\<close>

record 'f camera_model =
  cm_is_loaded :: bool
  cm_yolo_model :: "'f option \<Rightarrow> error + point list list"
  cm_rf_predict :: "real list \<Rightarrow> error + nat"
  cm_rf_predict_proba :: "real list \<Rightarrow> error + real list"
  cm_classes :: "string list"

text \<open>\<^verbatim>\<open>CameraModel.predict\<close>.\<close>

definition cm_predict :: "'f camera_model \<Rightarrow> 'f option \<Rightarrow> error + (string \<times> real)" where
  "cm_predict cm frame =
     (if \<not> cm_is_loaded cm then Inl ModelNotLoaded
      else
        (case cm_yolo_model cm frame of
           Inl e \<Rightarrow> Inl e
         | Inr persons \<Rightarrow>
            (case persons of
               [] \<Rightarrow> Inl NoPersonDetected
             | keypoints # _ \<Rightarrow>
                (if length keypoints \<noteq> 17 then Inl (InvalidKeypointsShape (length keypoints))
                 else
                   (case extract_features keypoints of
                      None \<Rightarrow> Inl FeatureError
                    | Some features \<Rightarrow>
                       (case cm_rf_predict cm features of
                          Inl e \<Rightarrow> Inl e
                        | Inr prediction \<Rightarrow>
                           (case cm_rf_predict_proba cm features of
                              Inl e \<Rightarrow> Inl e
                            | Inr probabilities \<Rightarrow>
                               (case inverse_transform (cm_classes cm) prediction of
                                  Inl e \<Rightarrow> Inl e
                                | Inr predicted_label \<Rightarrow>
                                   (case array_max probabilities of
                                      Inl e \<Rightarrow> Inl e
                                    | Inr confidence \<Rightarrow>
                                        Inr (predicted_label, confidence))))))))))"

text \<open>\<^verbatim>\<open>CameraModel.get_all_probabilities\<close>, which does not check the number of keypoints.\<close>

definition cm_get_all_probabilities :: "'f camera_model \<Rightarrow> 'f option \<Rightarrow> error + (string \<times> real) list" where
  "cm_get_all_probabilities cm frame =
     (if \<not> cm_is_loaded cm then Inl ModelNotLoaded
      else
        (case cm_yolo_model cm frame of
           Inl e \<Rightarrow> Inl e
         | Inr persons \<Rightarrow>
            (case persons of
               [] \<Rightarrow> Inl NoPersonDetected
             | keypoints # _ \<Rightarrow>
                (case extract_features keypoints of
                   None \<Rightarrow> Inl FeatureError
                 | Some features \<Rightarrow>
                    (case cm_rf_predict_proba cm features of
                       Inl e \<Rightarrow> Inl e
                     | Inr probabilities \<Rightarrow>
                         Inr (py_dict (zip (cm_classes cm) probabilities)))))))"


section \<open>Fusion logic (models/fusion_logic.py)\<close>

text \<open>The values a metadata dictionary holds; \<^verbatim>\<open>camera_error\<close> holds the text of the
  exception, which is the exception here.\<close>

datatype md_value =
    MStr string
  | MNum real
  | MBool bool
  | MErr error
  | MWeights "(string \<times> real) list"

type_synonym metadata = "(string \<times> md_value) list"

type_synonym prediction = "string \<times> real \<times> metadata"

text \<open>Each call of an adapter is recorded, in order, beside the result, so that what a
  mode invokes can be stated.\<close>

datatype adapter_call = SensorPredict | SensorProbabilities | CameraPredict | CameraProbabilities

record 'f fusion_logic =
  sensor_model :: sensor_model
  camera_model :: "'f camera_model"
  mode :: string
  auto_threshold :: real
  fusion_weights :: "(string \<times> real) list"

text \<open>\<^verbatim>\<open>update_config\<close>: an argument that is \<^verbatim>\<open>None\<close>, an empty mode string or an empty
  weights dictionary leaves the field as it is.\<close>

definition update_config ::
  "string option \<Rightarrow> real option \<Rightarrow> (string \<times> real) list option \<Rightarrow> 'f fusion_logic \<Rightarrow> 'f fusion_logic" where
  "update_config new_mode new_threshold new_weights fl =
     (let fl1 = (case new_mode of Some m \<Rightarrow> (if m \<noteq> [] then fl\<lparr>mode := m\<rparr> else fl) | None \<Rightarrow> fl);
          fl2 = (case new_threshold of Some t \<Rightarrow> fl1\<lparr>auto_threshold := t\<rparr> | None \<Rightarrow> fl1)
      in (case new_weights of
            Some w \<Rightarrow> (if w \<noteq> [] then fl2\<lparr>fusion_weights := w\<rparr> else fl2)
          | None \<Rightarrow> fl2))"

definition predict_sensor_only ::
  "'f fusion_logic \<Rightarrow> real list \<Rightarrow> (error + prediction) \<times> adapter_call list" where
  "predict_sensor_only fl sensor_values =
     (case sm_predict (sensor_model fl) sensor_values of
        Inl e \<Rightarrow> (Inl e, [SensorPredict])
      | Inr (label, confidence) \<Rightarrow>
          (Inr (label, confidence,
                [(''mode'', MStr ''sensor_only''),
                 (''sensor_confidence'', MNum confidence),
                 (''camera_used'', MBool False)]),
           [SensorPredict]))"

definition predict_camera_only ::
  "'f fusion_logic \<Rightarrow> 'f option \<Rightarrow> (error + prediction) \<times> adapter_call list" where
  "predict_camera_only fl camera_frame =
     (case camera_frame of
        None \<Rightarrow> (Inl CameraFrameRequired, [])
      | Some f \<Rightarrow>
         (case cm_predict (camera_model fl) (Some f) of
            Inl e \<Rightarrow> (Inl e, [CameraPredict])
          | Inr (label, confidence) \<Rightarrow>
              (Inr (label, confidence,
                    [(''mode'', MStr ''camera_only''),
                     (''camera_confidence'', MNum confidence),
                     (''camera_used'', MBool True)]),
               [CameraPredict])))"

definition predict_auto ::
  "'f fusion_logic \<Rightarrow> real list \<Rightarrow> 'f option \<Rightarrow> (error + prediction) \<times> adapter_call list" where
  "predict_auto fl sensor_values camera_frame =
     (case sm_predict (sensor_model fl) sensor_values of
        Inl e \<Rightarrow> (Inl e, [SensorPredict])
      | Inr (sensor_label, sensor_confidence) \<Rightarrow>
         (let metadata = [(''mode'', MStr ''auto''),
                          (''sensor_confidence'', MNum sensor_confidence),
                          (''sensor_label'', MStr sensor_label)]
          in if sensor_confidence \<ge> auto_threshold fl then
               (Inr (sensor_label, sensor_confidence,
                     AList.update ''camera_used'' (MBool False) metadata),
                [SensorPredict])
             else
               (case camera_frame of
                  None \<Rightarrow>
                    (Inr (sensor_label, sensor_confidence,
                          AList.update ''camera_used'' (MBool False) metadata),
                     [SensorPredict])
                | Some f \<Rightarrow>
                   (case cm_predict (camera_model fl) (Some f) of
                      Inr (camera_label, camera_confidence) \<Rightarrow>
                        (Inr (camera_label, camera_confidence,
                              AList.update ''camera_label'' (MStr camera_label)
                                (AList.update ''camera_confidence'' (MNum camera_confidence)
                                  (AList.update ''camera_used'' (MBool True) metadata))),
                         [SensorPredict, CameraPredict])
                    | Inl e \<Rightarrow>
                        (Inr (sensor_label, sensor_confidence,
                              AList.update ''camera_error'' (MErr e)
                                (AList.update ''camera_used'' (MBool False) metadata)),
                         [SensorPredict, CameraPredict])))))"

text \<open>
  \<^verbatim>\<open>max(fused_probs, key=fused_probs.get)\<close> goes through the keys in the order of the
  dictionary and keeps the first whose value no later one exceeds; it raises on an empty
  dictionary. The values it compares are the second components of the items.
\<close>

fun py_max_key :: "('a \<Rightarrow> real) \<Rightarrow> 'a list \<Rightarrow> 'a option" where
  "py_max_key key [] = None"
| "py_max_key key (x # xs) = Some (foldl (\<lambda>best y. if key y > key best then y else best) x xs)"

text \<open>
  The order in which Python iterates the set \<^verbatim>\<open>all_labels\<close> is not fixed by the
  language; it is the parameter \<open>set_iter\<close>, applied to the keys of the two distributions.
\<close>

definition predict_fusion ::
  "(string list \<Rightarrow> string list) \<Rightarrow> 'f fusion_logic \<Rightarrow> real list \<Rightarrow> 'f option \<Rightarrow>
     (error + prediction) \<times> adapter_call list" where
  "predict_fusion set_iter fl sensor_values camera_frame =
     (case sm_predict (sensor_model fl) sensor_values of
        Inl e \<Rightarrow> (Inl e, [SensorPredict])
      | Inr (sensor_label, sensor_confidence) \<Rightarrow>
         (let metadata = [(''mode'', MStr ''fusion''),
                          (''sensor_label'', MStr sensor_label),
                          (''sensor_confidence'', MNum sensor_confidence),
                          (''camera_used'', MBool True)]
          in case cm_predict (camera_model fl) camera_frame of
               Inl e \<Rightarrow>
                 (Inr (sensor_label, sensor_confidence,
                       AList.update ''camera_error'' (MErr e)
                         (AList.update ''camera_used'' (MBool False) metadata)),
                  [SensorPredict, CameraPredict])
             | Inr (camera_label, camera_confidence) \<Rightarrow>
                (let metadata1 = AList.update ''camera_confidence'' (MNum camera_confidence)
                                   (AList.update ''camera_label'' (MStr camera_label) metadata)
                 in case sm_get_all_probabilities (sensor_model fl) sensor_values of
                      Inl e \<Rightarrow> (Inl e, [SensorPredict, CameraPredict, SensorProbabilities])
                    | Inr sensor_probs \<Rightarrow>
                       (case cm_get_all_probabilities (camera_model fl) camera_frame of
                          Inl e \<Rightarrow>
                            (Inl e, [SensorPredict, CameraPredict, SensorProbabilities,
                                     CameraProbabilities])
                        | Inr camera_probs \<Rightarrow>
                           (let sensor_weight = dict_get (fusion_weights fl) ''sensor'' 0.4;
                                camera_weight = dict_get (fusion_weights fl) ''camera'' 0.6;
                                all_labels = set_iter (dict_keys sensor_probs @ dict_keys camera_probs);
                                fused_probs =
                                  py_dict (map (\<lambda>label.
                                      (label,
                                       (sensor_weight * dict_get sensor_probs label 0)
                                       + (camera_weight * dict_get camera_probs label 0)))
                                    all_labels);
                                calls = [SensorPredict, CameraPredict, SensorProbabilities,
                                         CameraProbabilities]
                            in case py_max_key snd fused_probs of
                                 None \<Rightarrow> (Inl EmptySequence, calls)
                               | Some (final_label, _) \<Rightarrow>
                                  (case map_of fused_probs final_label of
                                     None \<Rightarrow> (Inl (KeyError final_label), calls)
                                   | Some final_confidence \<Rightarrow>
                                       (Inr (final_label, final_confidence,
                                             AList.update ''weights''
                                               (MWeights [(''sensor'', sensor_weight),
                                                          (''camera'', camera_weight)])
                                               (AList.update ''fused_confidence'' (MNum final_confidence)
                                                 (AList.update ''fused_label'' (MStr final_label)
                                                   metadata1))),
                                        calls)))))))"

text \<open>\<^verbatim>\<open>FusionLogic.predict\<close>: the dispatch on the configured mode.\<close>

definition predict ::
  "(string list \<Rightarrow> string list) \<Rightarrow> 'f fusion_logic \<Rightarrow> real list \<Rightarrow> 'f option \<Rightarrow>
     (error + prediction) \<times> adapter_call list" where
  "predict set_iter fl sensor_values camera_frame =
     (if mode fl = ''sensor_only'' then predict_sensor_only fl sensor_values
      else if mode fl = ''camera_only'' then
        (if camera_frame = None then predict_sensor_only fl sensor_values
         else predict_camera_only fl camera_frame)
      else if mode fl = ''auto'' then predict_auto fl sensor_values camera_frame
      else if mode fl = ''fusion'' then
        (if camera_frame = None then predict_sensor_only fl sensor_values
         else predict_fusion set_iter fl sensor_values camera_frame)
      else predict_sensor_only fl sensor_values)"

text \<open>The fused score of a label as the specification writes it: the weighted sum of its
  two probabilities, an absent label counting 0.\<close>

definition fused_score ::
  "real \<Rightarrow> real \<Rightarrow> (string \<times> real) list \<Rightarrow> (string \<times> real) list \<Rightarrow> string \<Rightarrow> real" where
  "fused_score w_sensor w_camera sensor_probs camera_probs label =
     w_sensor * (case map_of sensor_probs label of None \<Rightarrow> 0 | Some p \<Rightarrow> p)
     + w_camera * (case map_of camera_probs label of None \<Rightarrow> 0 | Some p \<Rightarrow> p)"


section \<open>Frame source (utils/camera_manager.py)\<close>

text \<open>
  The capture device is outside the program: opening it raises, or gives a handle that is
  opened or not; reading an opened handle gives a frame or fails. A handle is its
  \<^verbatim>\<open>isOpened()\<close> answer here; the frames it reads arrive as events. The lock is free whenever
  a method of the model runs, and the sleeps take no part in the result.
\<close>

record video_capture =
  vc_isOpened :: bool

record 'f camera_manager =
  camera_index :: int
  width :: int
  height :: int
  cap :: "video_capture option"
  is_opened :: bool
  current_frame :: "'f option"
  inference_mode :: bool
  inference_frame :: "'f option"
  capture_thread :: bool
  running :: bool

definition CAMERA_INDEX :: int where
  "CAMERA_INDEX = 0"

definition CAMERA_WIDTH :: int where
  "CAMERA_WIDTH = 1280"

definition CAMERA_HEIGHT :: int where
  "CAMERA_HEIGHT = 720"

text \<open>\<^verbatim>\<open>x or default\<close> on an optional integer: \<^verbatim>\<open>None\<close> and 0 give the default.\<close>

definition int_or :: "int option \<Rightarrow> int \<Rightarrow> int" where
  "int_or x dflt = (case x of None \<Rightarrow> dflt | Some v \<Rightarrow> (if v = 0 then dflt else v))"

text \<open>The body of the \<^verbatim>\<open>try\<close> of \<^verbatim>\<open>_init_camera\<close>: an exception of the open call leaves
  the manager as it was; a handle that is not opened is kept and the method returns; an
  opened handle starts the capture thread.\<close>

definition init_camera_try ::
  "(int \<Rightarrow> error + video_capture) \<Rightarrow> 'f camera_manager \<Rightarrow> error + 'f camera_manager" where
  "init_camera_try open_device cm =
     (case open_device (camera_index cm) of
        Inl e \<Rightarrow> Inl e
      | Inr c \<Rightarrow>
          (if \<not> vc_isOpened c then Inr (cm\<lparr>cap := Some c, is_opened := False\<rparr>)
           else Inr (cm\<lparr>cap := Some c, is_opened := True, running := True,
                         capture_thread := True\<rparr>)))"

text \<open>\<^verbatim>\<open>_init_camera\<close>: the handler of the \<^verbatim>\<open>try\<close> logs and does not raise.\<close>

definition init_camera ::
  "(int \<Rightarrow> error + video_capture) \<Rightarrow> 'f camera_manager \<Rightarrow> 'f camera_manager" where
  "init_camera open_device cm =
     (case init_camera_try open_device cm of
        Inl e \<Rightarrow> cm\<lparr>is_opened := False\<rparr>
      | Inr cm1 \<Rightarrow> cm1)"

text \<open>\<^verbatim>\<open>CameraManager.__init__\<close>.\<close>

definition new_camera_manager ::
  "(int \<Rightarrow> error + video_capture) \<Rightarrow> int option \<Rightarrow> int option \<Rightarrow> int option \<Rightarrow> 'f camera_manager" where
  "new_camera_manager open_device index w h =
     init_camera open_device
       \<lparr>camera_index = int_or index CAMERA_INDEX,
        width = int_or w CAMERA_WIDTH,
        height = int_or h CAMERA_HEIGHT,
        cap = None,
        is_opened = False,
        current_frame = None,
        inference_mode = False,
        inference_frame = None,
        capture_thread = False,
        running = False\<rparr>"

text \<open>\<^verbatim>\<open>get_frame\<close> and \<^verbatim>\<open>capture_for_inference\<close>: a copy of the current frame, or
  \<^verbatim>\<open>None\<close>; the second sets the inference flag and resets it before it returns.\<close>

definition get_frame :: "'f camera_manager \<Rightarrow> 'f option" where
  "get_frame cm = current_frame cm"

definition capture_for_inference :: "'f camera_manager \<Rightarrow> 'f option \<times> 'f camera_manager" where
  "capture_for_inference cm =
     (let cm1 = cm\<lparr>inference_mode := True\<rparr>;
          inference_frame = current_frame cm1
      in (inference_frame, cm1\<lparr>inference_mode := False\<rparr>))"

definition is_available :: "'f camera_manager \<Rightarrow> bool" where
  "is_available cm =
     (is_opened cm \<and> cap cm \<noteq> None \<and> (case cap cm of None \<Rightarrow> False | Some c \<Rightarrow> vc_isOpened c))"

record camera_status =
  st_is_opened :: bool
  st_is_available :: bool
  st_camera_index :: int
  st_width :: int
  st_height :: int
  st_inference_mode :: bool
  st_has_frame :: bool

definition get_status :: "'f camera_manager \<Rightarrow> camera_status" where
  "get_status cm =
     \<lparr>st_is_opened = is_opened cm,
      st_is_available = is_available cm,
      st_camera_index = camera_index cm,
      st_width = width cm,
      st_height = height cm,
      st_inference_mode = inference_mode cm,
      st_has_frame = (current_frame cm \<noteq> None)\<rparr>"

text \<open>\<^verbatim>\<open>release\<close>: the thread is stopped, the handle released, the manager closed.\<close>

definition release :: "'f camera_manager \<Rightarrow> 'f camera_manager" where
  "release cm =
     cm\<lparr>running := False,
        cap := (case cap cm of None \<Rightarrow> None | Some c \<Rightarrow> Some (c\<lparr>vc_isOpened := False\<rparr>)),
        is_opened := False\<rparr>"

text \<open>
  One turn of \<^verbatim>\<open>_capture_loop\<close>, which runs only in a started thread while
  \<^verbatim>\<open>running\<close> holds: without an opened handle it reconnects (the outcome of the new open
  call is the event's), otherwise it reads, and a frame that was read replaces the current
  one.
\<close>

datatype 'f device_event = Reopen "error + video_capture" | Read "'f option"

definition capture_loop_turn :: "'f device_event \<Rightarrow> 'f camera_manager \<Rightarrow> 'f camera_manager" where
  "capture_loop_turn ev cm =
     (if \<not> (capture_thread cm \<and> running cm) then cm
      else if cap cm = None \<or> \<not> (case cap cm of None \<Rightarrow> False | Some c \<Rightarrow> vc_isOpened c) then
        (case ev of
           Reopen (Inr c) \<Rightarrow> cm\<lparr>cap := Some c\<rparr>
         | _ \<Rightarrow> cm)
      else
        (case ev of
           Read (Some frame) \<Rightarrow> cm\<lparr>current_frame := Some frame\<rparr>
         | _ \<Rightarrow> cm))"

text \<open>What can happen to a camera manager after its construction, and what each call
  gives back.\<close>

datatype 'f camera_call =
    CallGetFrame
  | CallCaptureForInference
  | CallIsAvailable
  | CallGetStatus
  | CallRelease
  | Background "'f device_event"

datatype 'f camera_answer =
    Frame "'f option"
  | Available bool
  | Status camera_status
  | Done

definition camera_step :: "'f camera_call \<Rightarrow> 'f camera_manager \<Rightarrow> 'f camera_answer \<times> 'f camera_manager" where
  "camera_step c cm =
     (case c of
        CallGetFrame \<Rightarrow> (Frame (get_frame cm), cm)
      | CallCaptureForInference \<Rightarrow>
          (case capture_for_inference cm of (fr, cm1) \<Rightarrow> (Frame fr, cm1))
      | CallIsAvailable \<Rightarrow> (Available (is_available cm), cm)
      | CallGetStatus \<Rightarrow> (Status (get_status cm), cm)
      | CallRelease \<Rightarrow> (Done, release cm)
      | Background ev \<Rightarrow> (Done, capture_loop_turn ev cm))"

fun camera_run :: "'f camera_call list \<Rightarrow> 'f camera_manager \<Rightarrow> 'f camera_answer list \<times> 'f camera_manager" where
  "camera_run [] cm = ([], cm)"
| "camera_run (c # cs) cm =
     (case camera_step c cm of
        (a, cm1) \<Rightarrow> (case camera_run cs cm1 of (as, cm2) \<Rightarrow> (a # as, cm2)))"

text \<open>An answer of a manager without a camera: no frame, not available.\<close>

fun degraded_answer :: "'f camera_answer \<Rightarrow> bool" where
  "degraded_answer (Frame fr) = (fr = None)"
| "degraded_answer (Available b) = (\<not> b)"
| "degraded_answer (Status st) = (\<not> st_is_available st \<and> \<not> st_has_frame st)"
| "degraded_answer Done = True"

definition degraded :: "'f camera_manager \<Rightarrow> bool" where
  "degraded cm = (\<not> is_opened cm \<and> current_frame cm = None \<and> \<not> capture_thread cm)"

text \<open>Whether opening the device fails: the call raises, or the handle is not opened.\<close>

definition open_fails :: "(int \<Rightarrow> error + video_capture) \<Rightarrow> int \<Rightarrow> bool" where
  "open_fails open_device index =
     (case open_device index of Inl e \<Rightarrow> True | Inr c \<Rightarrow> \<not> vc_isOpened c)"


section \<open>The prediction endpoint (routes/api.py)\<close>

text \<open>
  The configuration store holds the settings that \<^verbatim>\<open>POST /config\<close> saves, each absent or
  present; the values are held parsed. The request body is the JSON object, absent or a
  dictionary of numbers. Persisting the log entry is left to the database layer and is not
  part of the model, and the confidence is the one \<open>predict\<close> returns, before rounding.
\<close>

record config_store =
  cs_mode :: "string option"
  cs_auto_threshold :: "real option"
  cs_fusion_weights :: "(string \<times> real) list option"
  cs_warning_threshold :: "int option"
  cs_warning_time_limit :: "int option"

datatype response =
    BadRequest string
  | ServerError error
  | Ok string real bool string metadata

definition sensor_keys :: "string list" where
  "sensor_keys = [''sensor1'', ''sensor2'', ''sensor3'', ''sensor4'', ''sensor5'', ''sensor6'',
                  ''sensor7'']"

text \<open>The loop over \<^verbatim>\<open>sensor1\<close> to \<^verbatim>\<open>sensor7\<close>: the first missing key ends the request.\<close>

fun extract_sensor_values :: "(string \<times> real) list \<Rightarrow> string list \<Rightarrow> string + real list" where
  "extract_sensor_values data [] = Inr []"
| "extract_sensor_values data (key # keys) =
     (case map_of data key of
        None \<Rightarrow> Inl key
      | Some v \<Rightarrow>
          (case extract_sensor_values data keys of
             Inl k \<Rightarrow> Inl k
           | Inr vs \<Rightarrow> Inr (v # vs)))"

definition api_predict ::
  "(string list \<Rightarrow> string list) \<Rightarrow> config_store \<Rightarrow> (string \<times> real) list option \<Rightarrow>
     'f camera_manager \<times> 'f fusion_logic \<times> warning_tracker \<Rightarrow>
     response \<times> 'f camera_manager \<times> 'f fusion_logic \<times> warning_tracker" where
  "api_predict set_iter store request st =
     (case st of (camera_manager, fusion_logic, tracker) \<Rightarrow>
        (case request of
           None \<Rightarrow> (BadRequest ''No data provided'', st)
         | Some data \<Rightarrow>
            (if data = [] then (BadRequest ''No data provided'', st)
             else
               (case extract_sensor_values data sensor_keys of
                  Inl key \<Rightarrow> (BadRequest (''Missing '' @ key), st)
                | Inr sensor_values \<Rightarrow>
                   (let mode1 = (case cs_mode store of
                                   None \<Rightarrow> DEFAULT_MODE
                                 | Some m \<Rightarrow> (if m = [] then DEFAULT_MODE else m));
                        threshold1 = (case cs_auto_threshold store of
                                        None \<Rightarrow> DEFAULT_AUTO_THRESHOLD
                                      | Some t \<Rightarrow> t);
                        weights1 = (case cs_fusion_weights store of
                                      None \<Rightarrow> DEFAULT_FUSION_WEIGHTS
                                    | Some w \<Rightarrow> w);
                        fusion_logic1 =
                          update_config (Some mode1) (Some threshold1) (Some weights1) fusion_logic;
                        captured =
                          (if mode1 \<in> {''camera_only'', ''auto'', ''fusion''}
                           then capture_for_inference camera_manager
                           else (None, camera_manager))
                    in case captured of (camera_frame, camera_manager1) \<Rightarrow>
                         (case fst (predict set_iter fusion_logic1 sensor_values camera_frame) of
                            Inl e \<Rightarrow> (ServerError e, camera_manager1, fusion_logic1, tracker)
                          | Inr (label, confidence, metadata) \<Rightarrow>
                              (case warning_step label tracker of
                                 (warning_flag, tracker1) \<Rightarrow>
                                   (Ok label confidence warning_flag mode1 metadata,
                                    camera_manager1, fusion_logic1, tracker1))))))))"

text \<open>A sequence of requests under one configuration store.\<close>

fun serve ::
  "(string list \<Rightarrow> string list) \<Rightarrow> config_store \<Rightarrow> (string \<times> real) list option list \<Rightarrow>
     'f camera_manager \<times> 'f fusion_logic \<times> warning_tracker \<Rightarrow> response list" where
  "serve set_iter store [] st = []"
| "serve set_iter store (request # requests) st =
     (case api_predict set_iter store request st of
        (r, st1) \<Rightarrow> r # serve set_iter store requests st1)"

text \<open>The warning threshold that \<^verbatim>\<open>GET /config\<close> reports: the stored one, else the one of
  the configuration file, else \<^verbatim>\<open>config.WARNING_THRESHOLD\<close>.\<close>

definition reported_warning_threshold :: "config_store \<Rightarrow> config_store \<Rightarrow> int" where
  "reported_warning_threshold db_config file_config =
     (case cs_warning_threshold db_config of
        Some t \<Rightarrow> t
      | None \<Rightarrow> (case cs_warning_threshold file_config of
                   Some t \<Rightarrow> t
                 | None \<Rightarrow> WARNING_THRESHOLD))"


section \<open>A small concrete system\<close>

text \<open>
  Classifiers that ignore their input: a sensor classifier that always answers
  \<^verbatim>\<open>Leaning_forward\<close> with probability 0.8, and a camera classifier over frames numbered by
  naturals that detects nobody in frame 0, one person elsewhere, and answers
  \<^verbatim>\<open>Leaning_left\<close> with probability 0.7.
\<close>

definition example_sensor_model :: sensor_model where
  "example_sensor_model =
     \<lparr>sm_is_loaded = True,
      sm_model_predict = (\<lambda>_. Inr 2),
      sm_model_predict_proba = (\<lambda>_. Inr [0.1, 0.1, 0.8]),
      sm_classes = [''Correct_posture'', ''Leaning_backward'', ''Leaning_forward'']\<rparr>"

definition example_camera_model :: "nat camera_model" where
  "example_camera_model =
     \<lparr>cm_is_loaded = True,
      cm_yolo_model =
        (\<lambda>frame. case frame of
                    None \<Rightarrow> Inl (ClassifierError ''no source'')
                  | Some n \<Rightarrow> (if n = 0 then Inr [] else Inr [degenerate_keypoints])),
      cm_rf_predict = (\<lambda>_. Inr 1),
      cm_rf_predict_proba = (\<lambda>_. Inr [0.3, 0.7]),
      cm_classes = [''Correct_posture'', ''Leaning_left'']\<rparr>"

definition example_fusion_logic :: "string \<Rightarrow> real \<Rightarrow> nat fusion_logic" where
  "example_fusion_logic m t =
     \<lparr>sensor_model = example_sensor_model,
      camera_model = example_camera_model,
      mode = m,
      auto_threshold = t,
      fusion_weights = DEFAULT_FUSION_WEIGHTS\<rparr>"

definition example_sensor_values :: "real list" where
  "example_sensor_values = [1, 2, 3, 4, 5, 6, 7]"

text \<open>A device that cannot be opened, a store that configures sensor-only mode and a
  warning threshold of 3, and a request with the seven readings.\<close>

definition no_device :: "int \<Rightarrow> error + video_capture" where
  "no_device index = Inr \<lparr>vc_isOpened = False\<rparr>"

definition broken_device :: "int \<Rightarrow> error + video_capture" where
  "broken_device index = Inl (ClassifierError ''cannot open device'')"

definition example_store :: config_store where
  "example_store =
     \<lparr>cs_mode = Some ''sensor_only'',
      cs_auto_threshold = None,
      cs_fusion_weights = None,
      cs_warning_threshold = Some 3,
      cs_warning_time_limit = None\<rparr>"

definition empty_store :: config_store where
  "empty_store =
     \<lparr>cs_mode = None, cs_auto_threshold = None, cs_fusion_weights = None,
      cs_warning_threshold = None, cs_warning_time_limit = None\<rparr>"

definition example_request :: "(string \<times> real) list option" where
  "example_request =
     Some [(''sensor1'', 1), (''sensor2'', 2), (''sensor3'', 3), (''sensor4'', 4),
           (''sensor5'', 5), (''sensor6'', 6), (''sensor7'', 7)]"

definition example_system :: "nat camera_manager \<times> nat fusion_logic \<times> warning_tracker" where
  "example_system =
     (new_camera_manager no_device None None None,
      example_fusion_logic DEFAULT_MODE DEFAULT_AUTO_THRESHOLD,
      warning_tracker_init)"

section \<open>Warning hysteresis: the threshold scenario\<close>

lemma bad_posture_nonempty: "is_bad_posture B \<Longrightarrow> B \<noteq> []"
  by (auto simp: is_bad_posture_def BAD_POSTURES_def)

lemma warning_step_first:
  assumes "is_bad_posture B"
  shows "warning_step B warning_tracker_init =
           (False, \<lparr>last_posture = Some B, consecutive_count = 1, warning_threshold = 5,
                    warned_postures = {}\<rparr>)"
  using assms
  by (simp add: warning_step_def update_tracker_def determine_warning_def
      warning_tracker_init_def truthy_def)

lemma warning_step_same_below:
  assumes "is_bad_posture B" and "n + 1 < 5"
  shows "warning_step B \<lparr>last_posture = Some B, consecutive_count = n, warning_threshold = 5,
                          warned_postures = {}\<rparr> =
           (False, \<lparr>last_posture = Some B, consecutive_count = n + 1, warning_threshold = 5,
                    warned_postures = {}\<rparr>)"
  using assms
  by (simp add: warning_step_def update_tracker_def determine_warning_def)

lemma warning_step_same_reach:
  assumes "is_bad_posture B" and "n + 1 \<ge> 5"
  shows "warning_step B \<lparr>last_posture = Some B, consecutive_count = n, warning_threshold = 5,
                          warned_postures = {}\<rparr> =
           (True, \<lparr>last_posture = Some B, consecutive_count = n + 1, warning_threshold = 5,
                   warned_postures = {B}\<rparr>)"
  using assms
  by (simp add: warning_step_def update_tracker_def determine_warning_def)

lemma warning_step_same_warned:
  assumes "is_bad_posture B"
  shows "warning_step B \<lparr>last_posture = Some B, consecutive_count = n, warning_threshold = 5,
                          warned_postures = {B}\<rparr> =
           (True, \<lparr>last_posture = Some B, consecutive_count = n + 1, warning_threshold = 5,
                   warned_postures = {B}\<rparr>)"
  using assms
  by (simp add: warning_step_def update_tracker_def determine_warning_def)

lemma warning_step_interrupt:
  assumes "is_bad_posture B" and "\<not> is_bad_posture G"
  shows "warning_step G \<lparr>last_posture = Some B, consecutive_count = n, warning_threshold = 5,
                          warned_postures = {B}\<rparr> =
           (False, \<lparr>last_posture = Some G, consecutive_count = 0, warning_threshold = 5,
                    warned_postures = {}\<rparr>)"
proof -
  have "B \<noteq> G" using assms by auto
  moreover have "B \<noteq> []" using assms(1) by (rule bad_posture_nonempty)
  ultimately show ?thesis using assms
    by (simp add: warning_step_def update_tracker_def determine_warning_def truthy_def)
qed

lemma warning_step_recur:
  assumes "is_bad_posture B" and "\<not> is_bad_posture G"
  shows "warning_step B \<lparr>last_posture = Some G, consecutive_count = 0, warning_threshold = 5,
                          warned_postures = {}\<rparr> =
           (False, \<lparr>last_posture = Some B, consecutive_count = 1, warning_threshold = 5,
                    warned_postures = {}\<rparr>)"
proof -
  have "G \<noteq> B" using assms by auto
  then show ?thesis using assms
    by (simp add: warning_step_def update_tracker_def determine_warning_def truthy_def)
qed

lemma feed_five:
  assumes "is_bad_posture B"
  shows "feed warning_tracker_init [B, B, B, B, B] =
           ([False, False, False, False, True],
            \<lparr>last_posture = Some B, consecutive_count = 5, warning_threshold = 5,
             warned_postures = {B}\<rparr>)"
  using assms
  by (simp add: warning_step_first warning_step_same_below warning_step_same_reach)

lemma feed_append:
  "feed wt (xs @ ys) =
     (case feed wt xs of (ws, wt1) \<Rightarrow> (case feed wt1 ys of (vs, wt2) \<Rightarrow> (ws @ vs, wt2)))"
  by (induction xs arbitrary: wt) (auto split: prod.splits)

text \<open>
  C1. From the initial tracker (no last posture, count 0, nothing warned, threshold 5), and
  for every bad posture label \<open>B\<close> and every label \<open>G\<close> that is not bad: five consecutive
  \<open>B\<close> give the flags false, false, false, false, true; a sixth \<open>B\<close> gives true again; and
  \<open>B, B, B, B, B, G, B\<close> gives false, false, false, false, true, false, false.
\<close>

theorem C1_warning_scenario:
  assumes "is_bad_posture B" and "\<not> is_bad_posture G"
  shows "fst (feed warning_tracker_init [B, B, B, B, B]) = [False, False, False, False, True]
       \<and> fst (feed warning_tracker_init [B, B, B, B, B, B]) =
           [False, False, False, False, True, True]
       \<and> fst (feed warning_tracker_init [B, B, B, B, B, G, B]) =
           [False, False, False, False, True, False, False]"
proof -
  have five: "feed warning_tracker_init ([B, B, B, B, B] @ ys) =
      (case feed \<lparr>last_posture = Some B, consecutive_count = 5, warning_threshold = 5,
                  warned_postures = {B}\<rparr> ys of
         (vs, wt2) \<Rightarrow> ([False, False, False, False, True] @ vs, wt2))" for ys
    unfolding feed_append feed_five [OF assms(1)] by simp
  have a: "fst (feed warning_tracker_init [B, B, B, B, B]) = [False, False, False, False, True]"
    by (simp only: feed_five [OF assms(1)] fst_conv)
  have b: "fst (feed warning_tracker_init [B, B, B, B, B, B]) =
      [False, False, False, False, True, True]"
    using five [of "[B]"] by (simp add: warning_step_same_warned [OF assms(1)])
  have c: "fst (feed warning_tracker_init [B, B, B, B, B, G, B]) =
      [False, False, False, False, True, False, False]"
    using five [of "[G, B]"]
    by (simp add: warning_step_interrupt [OF assms] warning_step_recur [OF assms])
  from a b c show ?thesis by simp
qed

theorem C1_warning_scenario_witness:
  "is_bad_posture ''Leaning_forward'' \<and> \<not> is_bad_posture ''Correct_posture''
   \<and> fst (feed warning_tracker_init (replicate 5 ''Leaning_forward'')) =
       [False, False, False, False, True]
   \<and> fst (feed warning_tracker_init (replicate 6 ''Leaning_forward'')) =
       [False, False, False, False, True, True]
   \<and> fst (feed warning_tracker_init
        (replicate 5 ''Leaning_forward'' @ [''Correct_posture'', ''Leaning_forward''])) =
       [False, False, False, False, True, False, False]"
proof -
  have b: "is_bad_posture ''Leaning_forward''"
    by (simp add: is_bad_posture_def BAD_POSTURES_def)
  have g: "\<not> is_bad_posture ''Correct_posture''"
    by (simp add: is_bad_posture_def BAD_POSTURES_def)
  have r5: "replicate 5 x = [x, x, x, x, x]" for x :: string
    by (simp add: numeral_eq_Suc)
  have r6: "replicate 6 x = [x, x, x, x, x, x]" for x :: string
    by (simp add: numeral_eq_Suc)
  show ?thesis
    using C1_warning_scenario [OF b g] b g unfolding r5 r6 by simp
qed


section \<open>Warning hysteresis: the invariant of the tracker\<close>

lemma streak_snoc:
  "streak (ls @ [l]) = (if ls \<noteq> [] \<and> last ls = l then streak ls + 1 else 1)"
  by (cases ls rule: rev_cases) (auto simp: streak_def)

lemma streak_pos: "ls \<noteq> [] \<Longrightarrow> 1 \<le> streak ls"
  by (cases ls rule: rev_cases) (auto simp: streak_def)

lemma run_tracker_Nil: "run_tracker [] = warning_tracker_init"
  by (simp add: run_tracker_def)

lemma run_tracker_snoc: "run_tracker (ls @ [l]) = snd (warning_step l (run_tracker ls))"
  by (simp add: run_tracker_def feed_append split: prod.splits)

lemma run_tracker_char: "ls \<noteq> [] \<Longrightarrow> run_tracker ls = tracker_after ls"
proof (induction ls rule: rev_induct)
  case Nil
  then show ?case by simp
next
  case (snoc l ls)
  show ?case
  proof (cases "ls = []")
    case True
    have "streak [l] = 1" by (simp add: streak_def)
    moreover have "run_tracker [l] = snd (warning_step l warning_tracker_init)"
      by (simp add: run_tracker_def split: prod.splits)
    ultimately show ?thesis using True
      by (simp add: tracker_after_def
          warning_step_def update_tracker_def determine_warning_def warning_tracker_init_def
          truthy_def)
  next
    case False
    then have ih: "run_tracker ls = tracker_after ls" using snoc by simp
    have pos: "1 \<le> streak ls" using False by (rule streak_pos)
    show ?thesis
      using pos False
      by (auto simp add: run_tracker_snoc ih tracker_after_def streak_snoc
          warning_step_def update_tracker_def determine_warning_def truthy_def Let_def
          dest: bad_posture_nonempty)
  qed
qed



lemma count_changed:
  assumes "last_posture (run_tracker ls) \<noteq> Some L"
  shows "consecutive_count (run_tracker (ls @ [L])) = (if is_bad_posture L then 1 else 0)"
proof (cases "ls = []")
  case True
  have "run_tracker [L] = tracker_after [L]" by (rule run_tracker_char) simp
  with True show ?thesis by (simp add: tracker_after_def streak_def)
next
  case False
  with assms have "last ls \<noteq> L" by (simp add: run_tracker_char tracker_after_def)
  moreover have "run_tracker (ls @ [L]) = tracker_after (ls @ [L])"
    by (rule run_tracker_char) simp
  ultimately show ?thesis by (simp add: tracker_after_def streak_snoc)
qed


lemma count_same:
  assumes "last_posture (run_tracker ls) = Some L"
  shows "if is_bad_posture L
       then consecutive_count (run_tracker (ls @ [L])) = consecutive_count (run_tracker ls) + 1
            \<and> 2 \<le> consecutive_count (run_tracker (ls @ [L]))
       else consecutive_count (run_tracker (ls @ [L])) = consecutive_count (run_tracker ls)
            \<and> consecutive_count (run_tracker ls) = 0"
proof -
  from assms have ne: "ls \<noteq> []"
    by (auto simp: run_tracker_Nil warning_tracker_init_def)
  then have before: "run_tracker ls = tracker_after ls" by (rule run_tracker_char)
  have after: "run_tracker (ls @ [L]) = tracker_after (ls @ [L])"
    by (rule run_tracker_char) simp
  from assms have l: "last ls = L" unfolding before by (simp add: tracker_after_def)
  from ne have "1 \<le> streak ls" by (rule streak_pos)
  with ne l show ?thesis
    unfolding before after by (simp add: tracker_after_def streak_snoc)
qed

lemma warned_last:
  assumes "ls \<noteq> []" and "last_posture (run_tracker ls) = Some l"
    and "l \<in> warned_postures (run_tracker ls)"
  shows "is_bad_posture l \<and> consecutive_count (run_tracker ls) = streak ls
        \<and> warning_threshold (run_tracker ls) \<le> streak ls"
proof -
  have "run_tracker ls = tracker_after ls" using assms(1) by (rule run_tracker_char)
  with assms(2,3) show ?thesis
    by (auto simp: tracker_after_def split: if_splits)
qed


text \<open>
  C2. After every step of every label sequence fed from the initial tracker. On a step
  where the last posture changes, the count restarts: it is 1 for a bad label and 0 for
  any other, whatever it was. On a step where the last posture does not change, the count
  does not restart: for a bad label it is the previous count plus one, which is at least
  2, and for any other label it is the previous count (the 0 it already was, which the
  code writes again). And whenever the last posture is in the warned set, it is a bad
  posture whose current uninterrupted streak, which the count equals, has reached the
  warning threshold.
\<close>

theorem C2_tracker_invariant:
  "(last_posture (run_tracker ls) \<noteq> Some L \<longrightarrow>
      consecutive_count (run_tracker (ls @ [L])) = (if is_bad_posture L then 1 else 0))
   \<and> (last_posture (run_tracker ls) = Some L \<longrightarrow>
      (if is_bad_posture L
       then consecutive_count (run_tracker (ls @ [L])) = consecutive_count (run_tracker ls) + 1
            \<and> 2 \<le> consecutive_count (run_tracker (ls @ [L]))
       else consecutive_count (run_tracker (ls @ [L])) = consecutive_count (run_tracker ls)
            \<and> consecutive_count (run_tracker ls) = 0))
   \<and> (\<forall>l. last_posture (run_tracker (ls @ [L])) = Some l
          \<and> l \<in> warned_postures (run_tracker (ls @ [L])) \<longrightarrow>
        is_bad_posture l
        \<and> consecutive_count (run_tracker (ls @ [L])) = streak (ls @ [L])
        \<and> warning_threshold (run_tracker (ls @ [L])) \<le> streak (ls @ [L]))"
proof -
  have ne: "ls @ [L] \<noteq> []" by simp
  show ?thesis
    using count_changed [of ls L] count_same [of ls L] warned_last [OF ne]
    by blast
qed

theorem C2_tracker_invariant_witness:
  "last_posture (run_tracker [''Leaning_left'']) \<noteq> Some ''Correct_posture''
   \<and> consecutive_count (run_tracker ([''Leaning_left''] @ [''Correct_posture''])) = 0
   \<and> last_posture (run_tracker (replicate 4 ''Leaning_left'')) = Some ''Leaning_left''
   \<and> consecutive_count (run_tracker (replicate 4 ''Leaning_left'' @ [''Leaning_left''])) =
        consecutive_count (run_tracker (replicate 4 ''Leaning_left'')) + 1
   \<and> last_posture (run_tracker (replicate 4 ''Leaning_left'' @ [''Leaning_left''])) =
        Some ''Leaning_left''
   \<and> ''Leaning_left'' \<in>
        warned_postures (run_tracker (replicate 4 ''Leaning_left'' @ [''Leaning_left'']))
   \<and> warning_threshold (run_tracker (replicate 4 ''Leaning_left'' @ [''Leaning_left''])) \<le>
        streak (replicate 4 ''Leaning_left'' @ [''Leaning_left''])"
proof -
  have b: "is_bad_posture ''Leaning_left''"
    by (simp add: is_bad_posture_def BAD_POSTURES_def)
  have g: "\<not> is_bad_posture ''Correct_posture''"
    by (simp add: is_bad_posture_def BAD_POSTURES_def)
  have r4: "replicate 4 x = [x, x, x, x]" for x :: string
    by (simp add: numeral_eq_Suc)
  have one: "run_tracker [''Leaning_left''] =
      \<lparr>last_posture = Some ''Leaning_left'', consecutive_count = 1, warning_threshold = 5,
       warned_postures = {}\<rparr>"
    by (simp add: run_tracker_def warning_step_first [OF b])
  have four: "run_tracker (replicate 4 ''Leaning_left'') =
      \<lparr>last_posture = Some ''Leaning_left'', consecutive_count = 4, warning_threshold = 5,
       warned_postures = {}\<rparr>"
    unfolding r4
    by (simp add: run_tracker_def warning_step_first [OF b] warning_step_same_below [OF b])
  have five: "run_tracker (replicate 4 ''Leaning_left'' @ [''Leaning_left'']) =
      \<lparr>last_posture = Some ''Leaning_left'', consecutive_count = 5, warning_threshold = 5,
       warned_postures = {''Leaning_left''}\<rparr>"
    unfolding r4 append.simps
    by (simp only: run_tracker_def feed_five [OF b] snd_conv)
  have p1: "last_posture (run_tracker [''Leaning_left'']) \<noteq> Some ''Correct_posture''"
    unfolding one by simp
  have p2: "last_posture (run_tracker (replicate 4 ''Leaning_left'')) = Some ''Leaning_left''"
    unfolding four by simp
  have p3: "last_posture (run_tracker (replicate 4 ''Leaning_left'' @ [''Leaning_left''])) =
        Some ''Leaning_left''
      \<and> ''Leaning_left'' \<in>
        warned_postures (run_tracker (replicate 4 ''Leaning_left'' @ [''Leaning_left'']))"
    unfolding five by simp
  have c1: "consecutive_count (run_tracker ([''Leaning_left''] @ [''Correct_posture''])) = 0"
    using C2_tracker_invariant [of "[''Leaning_left'']" "''Correct_posture''"] p1 g
    by presburger
  have c2: "consecutive_count (run_tracker (replicate 4 ''Leaning_left'' @ [''Leaning_left''])) =
        consecutive_count (run_tracker (replicate 4 ''Leaning_left'')) + 1"
    using C2_tracker_invariant [of "replicate 4 ''Leaning_left''" "''Leaning_left''"] p2 b
    by presburger
  have c3: "warning_threshold (run_tracker (replicate 4 ''Leaning_left'' @ [''Leaning_left''])) \<le>
        streak (replicate 4 ''Leaning_left'' @ [''Leaning_left''])"
    using C2_tracker_invariant [of "replicate 4 ''Leaning_left''" "''Leaning_left''"] p3
    by blast
  from p1 c1 p2 c2 p3 c3 show ?thesis by blast
qed



section \<open>Camera adapter: the layout of the feature vector\<close>

lemma np_norm_nonneg: "0 \<le> np_norm v"
  by (simp add: np_norm_def)

lemma calculate_distance_nonneg: "0 \<le> calculate_distance p q"
  by (simp add: calculate_distance_def)

lemma np_divide_eps:
  assumes "0 \<le> d"
  shows "np_divide x (d + 1 / 1000000) = Some (x / (d + 1 / 1000000))"
  using assms by (simp add: np_divide_def)

lemma calculate_angle_Some: "\<exists>a. calculate_angle p1 p2 p3 = Some a"
proof -
  have "0 \<le> np_norm (fst p1 - fst p2, snd p1 - snd p2) * np_norm (fst p3 - fst p2, snd p3 - snd p2)"
    by (intro mult_nonneg_nonneg np_norm_nonneg)
  then show ?thesis
    by (simp add: calculate_angle_def Let_def np_divide_eps)
qed

lemma quotient_nonneg: "0 \<le> calculate_distance p q / (calculate_distance r s + 1 / 1000000)"
proof -
  have "0 \<le> calculate_distance r s + 1 / 1000000"
    using calculate_distance_nonneg [of r s] by simp
  then show ?thesis
    by (intro divide_nonneg_nonneg calculate_distance_nonneg)
qed

lemma kp_at_in_range: "idx < length keypoints \<Longrightarrow> kp_at keypoints idx = Some (keypoints ! idx)"
  by (simp add: kp_at_def)

lemma raw_keypoints_in_range:
  "\<forall>idx \<in> set idxs. idx < length keypoints \<Longrightarrow>
     raw_keypoints keypoints idxs = Some (raw_coordinates keypoints idxs)"
  by (induction idxs) (simp_all add: raw_coordinates_def kp_at_in_range)

lemma extract_derived_features_Some:
  assumes "length keypoints = 17"
  shows "\<exists>derived. extract_derived_features keypoints = Some derived
           \<and> map fst derived = derived_names"
proof -
  define sc where "sc = ((fst (keypoints ! 5) + fst (keypoints ! 6)) / 2,
                            (snd (keypoints ! 5) + snd (keypoints ! 6)) / 2)"
  define hc where "hc = ((fst (keypoints ! 11) + fst (keypoints ! 12)) / 2,
                       (snd (keypoints ! 11) + snd (keypoints ! 12)) / 2)"
  obtain a1 where a1: "calculate_angle (keypoints ! 0) sc hc = Some a1"
    using calculate_angle_Some by blast
  obtain a2 where a2: "calculate_angle (keypoints ! 11) (keypoints ! 13) (keypoints ! 15) = Some a2"
    using calculate_angle_Some by blast
  obtain a3 where a3: "calculate_angle (keypoints ! 12) (keypoints ! 14) (keypoints ! 16) = Some a3"
    using calculate_angle_Some by blast
  obtain a4 where a4: "calculate_angle (keypoints ! 5) (keypoints ! 11) (keypoints ! 13) = Some a4"
    using calculate_angle_Some by blast
  obtain a5 where a5: "calculate_angle (keypoints ! 6) (keypoints ! 12) (keypoints ! 14) = Some a5"
    using calculate_angle_Some by blast
  show ?thesis
    unfolding extract_derived_features_def
    using assms
    by (simp add: kp_at_in_range Let_def a1 [unfolded sc_def hc_def] a2 a3 a4 a5
        np_divide_eps calculate_distance_nonneg quotient_nonneg derived_names_def)
qed


lemma extract_features_eq:
  assumes "length keypoints = 17" and "extract_derived_features keypoints = Some derived"
  shows "extract_features keypoints =
           Some (raw_coordinates keypoints RELEVANT_KEYPOINTS @ map snd derived)"
proof -
  have "\<forall>idx \<in> set RELEVANT_KEYPOINTS. idx < length keypoints"
    using assms(1) by (simp add: RELEVANT_KEYPOINTS_def)
  then have "raw_keypoints keypoints RELEVANT_KEYPOINTS =
      Some (raw_coordinates keypoints RELEVANT_KEYPOINTS)"
    by (rule raw_keypoints_in_range)
  then show ?thesis using assms(2) by (simp add: extract_features_def)
qed

text \<open>
  C9, amended. For every set of 17 keypoints the feature computation succeeds (no read
  past the array, and no division by zero, since every denominator carries the added
  epsilon, also on degenerate poses), and the classifier input vector is the coordinates
  of the fixed 13-point subset 0, 1, 2, 3, 4, 5, 6, 11, 12, 13, 14, 15, 16 of the
  keypoints, in that order, followed by the eighteen derived features in their fixed order.
\<close>

theorem C9_feature_vector:
  assumes "length keypoints = 17"
  shows "\<exists>derived. extract_derived_features keypoints = Some derived
           \<and> map fst derived = derived_names
           \<and> extract_features keypoints =
               Some (raw_coordinates keypoints [0, 1, 2, 3, 4, 5, 6, 11, 12, 13, 14, 15, 16]
                     @ map snd derived)"
proof -
  obtain derived where d: "extract_derived_features keypoints = Some derived"
    and n: "map fst derived = derived_names"
    using extract_derived_features_Some [OF assms] by blast
  from extract_features_eq [OF assms d] d n show ?thesis
    by (auto simp: RELEVANT_KEYPOINTS_def)
qed

theorem C9_feature_vector_witness:
  "length degenerate_keypoints = 17
   \<and> (\<exists>derived. extract_derived_features degenerate_keypoints = Some derived
           \<and> map fst derived = derived_names
           \<and> extract_features degenerate_keypoints =
               Some (raw_coordinates degenerate_keypoints
                       [0, 1, 2, 3, 4, 5, 6, 11, 12, 13, 14, 15, 16] @ map snd derived))"
proof -
  have l: "length degenerate_keypoints = 17" by (simp add: degenerate_keypoints_def)
  from C9_feature_vector [OF l] l show ?thesis by blast
qed

text \<open>The degenerate pose, all points at the origin: every distance and ratio is 0 and
  every angle is 90 degrees.\<close>

lemma degenerate_pose_features:
  "extract_features degenerate_keypoints =
     Some (replicate 26 0 @ [90, 90, 90, 90, 90] @ replicate 13 0)"
  by (simp add: extract_features_def extract_derived_features_def degenerate_keypoints_def
      RELEVANT_KEYPOINTS_def kp_at_def calculate_angle_def calculate_distance_def np_divide_def
      np_dot_def np_norm_def np_clip_def np_degrees_def Let_def numeral_eq_Suc)

text \<open>
  C9 as stated fails: the subset has 13 points, not 12. On a set of 17 keypoints with
  distinct coordinates the vector starts with 26 raw coordinates and has 44 entries, not
  the 2 * 12 + 18 of a 12-point subset.
\<close>

theorem C9_twelve_points_counterexample:
  "length example_keypoints = 17
   \<and> length RELEVANT_KEYPOINTS \<noteq> 12
   \<and> map_option length (extract_derived_features example_keypoints) = Some 18
   \<and> map_option length (extract_features example_keypoints) \<noteq> Some (2 * 12 + 18)
   \<and> map_option (take 26) (extract_features example_keypoints) =
       Some [0, 100, 1, 101, 2, 102, 3, 103, 4, 104, 5, 105, 6, 106,
             11, 111, 12, 112, 13, 113, 14, 114, 15, 115, 16, 116]"
proof -
  have l: "length example_keypoints = 17" by (simp add: example_keypoints_def)
  obtain derived where d: "extract_derived_features example_keypoints = Some derived"
    and n: "map fst derived = derived_names"
    using extract_derived_features_Some [OF l] by blast
  have "length (map fst derived) = 18" unfolding n by (simp add: derived_names_def)
  then have ld: "length derived = 18" by simp
  have raw: "raw_coordinates example_keypoints RELEVANT_KEYPOINTS =
      [0, 100, 1, 101, 2, 102, 3, 103, 4, 104, 5, 105, 6, 106,
       11, 111, 12, 112, 13, 113, 14, 114, 15, 115, 16, 116]"
    by (simp add: raw_coordinates_def RELEVANT_KEYPOINTS_def example_keypoints_def)
  have f: "extract_features example_keypoints =
      Some ([0, 100, 1, 101, 2, 102, 3, 103, 4, 104, 5, 105, 6, 106,
             11, 111, 12, 112, 13, 113, 14, 114, 15, 115, 16, 116] @ map snd derived)"
    using extract_features_eq [OF l d] unfolding raw .
  have r: "length RELEVANT_KEYPOINTS \<noteq> 12" by (simp add: RELEVANT_KEYPOINTS_def)
  show ?thesis using l r ld by (simp add: d f)
qed



section \<open>Fusion logic: dictionaries, the maximum, and the adapters\<close>

lemma foldl_max_key:
  fixes key :: "'a \<Rightarrow> real"
  shows "foldl (\<lambda>best y. if key y > key best then y else best) b xs \<in> set (b # xs)
   \<and> (\<forall>x \<in> set (b # xs). key x \<le> key (foldl (\<lambda>best y. if key y > key best then y else best) b xs))"
proof (induction xs arbitrary: b)
  case Nil
  then show ?case by simp
next
  case (Cons a xs)
  let ?step = "\<lambda>best y. if key y > key best then y else best"
  let ?b1 = "if key a > key b then a else b"
  have ih: "foldl ?step ?b1 xs \<in> set (?b1 # xs)
      \<and> (\<forall>x \<in> set (?b1 # xs). key x \<le> key (foldl ?step ?b1 xs))"
    by (rule Cons.IH)
  have eq: "foldl ?step b (a # xs) = foldl ?step ?b1 xs" by simp
  have mem: "foldl ?step ?b1 xs \<in> set (b # a # xs)"
    using ih by (cases "key a > key b") auto
  have b1: "key ?b1 \<le> key (foldl ?step ?b1 xs)" using ih by simp
  have "key a \<le> key ?b1" "key b \<le> key ?b1" by simp_all
  with b1 have ab: "key a \<le> key (foldl ?step ?b1 xs)" "key b \<le> key (foldl ?step ?b1 xs)"
    by linarith+
  have rest: "\<forall>x \<in> set xs. key x \<le> key (foldl ?step ?b1 xs)" using ih by simp
  show ?case unfolding eq using mem ab rest by simp
qed

lemma py_max_key_Some:
  fixes key :: "'a \<Rightarrow> real"
  assumes "xs \<noteq> []"
  shows "\<exists>m. py_max_key key xs = Some m \<and> m \<in> set xs \<and> (\<forall>x \<in> set xs. key x \<le> key m)"
proof (cases xs)
  case Nil
  with assms show ?thesis by simp
next
  case (Cons b ys)
  have "py_max_key key xs = Some (foldl (\<lambda>best y. if key y > key best then y else best) b ys)"
    unfolding Cons by simp
  with foldl_max_key [of key b ys] Cons show ?thesis by blast
qed


lemma update_graph:
  assumes "distinct (map fst d)" and "\<forall>p \<in> set d. snd p = g (fst p)"
  shows "\<forall>p \<in> set (AList.update l (g l) d). snd p = g (fst p)"
proof
  fix p assume p: "p \<in> set (AList.update l (g l) d)"
  have dist: "distinct (map fst (AList.update l (g l) d))"
    using assms(1) by (rule distinct_update)
  from p have "(fst p, snd p) \<in> set (AList.update l (g l) d)" by simp
  with dist have "map_of (AList.update l (g l) d) (fst p) = Some (snd p)"
    by (rule map_of_is_SomeI)
  then have m: "((map_of d)(l \<mapsto> g l)) (fst p) = Some (snd p)"
    by (simp only: update_conv')
  show "snd p = g (fst p)"
  proof (cases "fst p = l")
    case True
    with m show ?thesis by simp
  next
    case False
    with m have "map_of d (fst p) = Some (snd p)" by simp
    then have "(fst p, snd p) \<in> set d" by (rule map_of_SomeD)
    with assms(2) show ?thesis by fastforce
  qed
qed

lemma fold_update_graph:
  assumes "distinct (map fst d)" and "\<forall>p \<in> set d. snd p = g (fst p)"
  shows "distinct (map fst (fold (\<lambda>(k, v) d. AList.update k v d) (map (\<lambda>l. (l, g l)) ls) d))
       \<and> (\<forall>p \<in> set (fold (\<lambda>(k, v) d. AList.update k v d) (map (\<lambda>l. (l, g l)) ls) d).
             snd p = g (fst p))
       \<and> fst ` set (fold (\<lambda>(k, v) d. AList.update k v d) (map (\<lambda>l. (l, g l)) ls) d) =
           fst ` set d \<union> set ls"
  using assms
proof (induction ls arbitrary: d)
  case Nil
  then show ?case by simp
next
  case (Cons l ls)
  have d1: "distinct (map fst (AList.update l (g l) d))"
    using Cons.prems(1) by (rule distinct_update)
  have g1: "\<forall>p \<in> set (AList.update l (g l) d). snd p = g (fst p)"
    using Cons.prems by (rule update_graph)
  have k1: "fst ` set (AList.update l (g l) d) = {l} \<union> fst ` set d"
    by (rule dom_update)
  have step: "fold (\<lambda>(k, v) d. AList.update k v d) (map (\<lambda>l. (l, g l)) (l # ls)) d =
      fold (\<lambda>(k, v) d. AList.update k v d) (map (\<lambda>l. (l, g l)) ls) (AList.update l (g l) d)"
    by simp
  have "fst ` set d \<union> set (l # ls) = ({l} \<union> fst ` set d) \<union> set ls" by auto
  with Cons.IH [OF d1 g1] show ?case unfolding step k1 by simp
qed

lemma py_dict_graph:
  "distinct (map fst (py_dict (map (\<lambda>l. (l, g l)) ls)))
   \<and> (\<forall>p \<in> set (py_dict (map (\<lambda>l. (l, g l)) ls)). snd p = g (fst p))
   \<and> fst ` set (py_dict (map (\<lambda>l. (l, g l)) ls)) = set ls"
  using fold_update_graph [of "[]" g ls] by (simp add: py_dict_def)

lemma fold_update_nonempty:
  "d \<noteq> [] \<Longrightarrow> fold (\<lambda>(k, v) d. AList.update k v d) kvs d \<noteq> []"
  by (induction kvs arbitrary: d) (simp_all add: split_beta)

lemma py_dict_nonempty: "kvs \<noteq> [] \<Longrightarrow> py_dict kvs \<noteq> []"
  by (cases kvs) (simp_all add: py_dict_def split_beta fold_update_nonempty)


lemma array_max_nonempty: "array_max xs = Inr m \<Longrightarrow> xs \<noteq> []"
  by (cases xs) auto

lemma sm_predict_probabilities:
  assumes "sm_predict sm sensor_values = Inr r"
  shows "\<exists>probabilities. sm_model_predict_proba sm sensor_values = Inr probabilities
           \<and> probabilities \<noteq> [] \<and> sm_classes sm \<noteq> []
           \<and> sm_get_all_probabilities sm sensor_values =
               Inr (py_dict (zip (sm_classes sm) probabilities))"
  using assms
  by (auto simp: sm_predict_def sm_get_all_probabilities_def inverse_transform_def
      split: if_splits sum.splits dest: array_max_nonempty)

lemma cm_predict_probabilities:
  assumes "cm_predict cm frame = Inr r"
  shows "\<exists>probabilities. probabilities \<noteq> [] \<and> cm_classes cm \<noteq> []
           \<and> cm_get_all_probabilities cm frame =
               Inr (py_dict (zip (cm_classes cm) probabilities))"
  using assms
  by (auto simp: cm_predict_def cm_get_all_probabilities_def inverse_transform_def
      split: if_splits sum.splits list.splits option.splits dest: array_max_nonempty)

lemma zip_nonempty: "xs \<noteq> [] \<Longrightarrow> ys \<noteq> [] \<Longrightarrow> zip xs ys \<noteq> []"
  by (cases xs; cases ys) simp_all

lemma sm_probabilities_nonempty:
  assumes "sm_predict sm sensor_values = Inr r"
    and "sm_get_all_probabilities sm sensor_values = Inr sensor_probs"
  shows "sensor_probs \<noteq> []"
proof -
  obtain probabilities where "probabilities \<noteq> []" "sm_classes sm \<noteq> []"
    "sm_get_all_probabilities sm sensor_values = Inr (py_dict (zip (sm_classes sm) probabilities))"
    using sm_predict_probabilities [OF assms(1)] by blast
  with assms(2) show ?thesis
    by (auto simp: zip_nonempty py_dict_nonempty)
qed


lemma predict_fusion_argmax:
  assumes sp: "sm_predict (sensor_model fl) sensor_values = Inr (sensor_label, sensor_confidence)"
    and cp: "cm_predict (camera_model fl) camera_frame = Inr (camera_label, camera_confidence)"
    and sd: "sm_get_all_probabilities (sensor_model fl) sensor_values = Inr sensor_probs"
    and cd: "cm_get_all_probabilities (camera_model fl) camera_frame = Inr camera_probs"
    and iter: "set (set_iter (dict_keys sensor_probs @ dict_keys camera_probs)) =
                 set (dict_keys sensor_probs @ dict_keys camera_probs)"
    and g: "g = (\<lambda>label. dict_get (fusion_weights fl) ''sensor'' 0.4 * dict_get sensor_probs label 0
                        + dict_get (fusion_weights fl) ''camera'' 0.6 * dict_get camera_probs label 0)"
  shows "\<exists>final_label md.
           predict_fusion set_iter fl sensor_values camera_frame =
             (Inr (final_label, g final_label, md),
              [SensorPredict, CameraPredict, SensorProbabilities, CameraProbabilities])
           \<and> final_label \<in> set (dict_keys sensor_probs) \<union> set (dict_keys camera_probs)
           \<and> (\<forall>l \<in> set (dict_keys sensor_probs) \<union> set (dict_keys camera_probs).
                 g l \<le> g final_label)
           \<and> map_of md ''camera_used'' = Some (MBool True)"
proof -
  define all_labels where "all_labels = set_iter (dict_keys sensor_probs @ dict_keys camera_probs)"
  define fused_probs where "fused_probs = py_dict (map (\<lambda>l. (l, g l)) all_labels)"
  have labels: "set all_labels = set (dict_keys sensor_probs) \<union> set (dict_keys camera_probs)"
    unfolding all_labels_def iter by simp
  have "sensor_probs \<noteq> []" using sp sd by (rule sm_probabilities_nonempty)
  then have "set all_labels \<noteq> {}" unfolding labels by (simp add: dict_keys_def)
  then have "map (\<lambda>l. (l, g l)) all_labels \<noteq> []" by auto
  then have ne: "fused_probs \<noteq> []" unfolding fused_probs_def by (rule py_dict_nonempty)
  have dist: "distinct (map fst fused_probs)"
    and graph: "\<forall>p \<in> set fused_probs. snd p = g (fst p)"
    and keys: "fst ` set fused_probs = set all_labels"
    unfolding fused_probs_def using py_dict_graph [of g all_labels] by blast+
  obtain m where mx: "py_max_key snd fused_probs = Some m" and mem: "m \<in> set fused_probs"
    and le: "\<forall>x \<in> set fused_probs. snd x \<le> snd m"
    using py_max_key_Some [OF ne, of snd] by blast
  have val: "snd m = g (fst m)" using graph mem by blast
  have "(fst m, snd m) \<in> set fused_probs" using mem by simp
  with dist have look: "map_of fused_probs (fst m) = Some (snd m)" by (rule map_of_is_SomeI)
  have mx': "py_max_key snd fused_probs = Some (fst m, snd m)" using mx by simp
  have key: "fst m \<in> set (dict_keys sensor_probs) \<union> set (dict_keys camera_probs)"
    using mem keys labels by (metis imageI)
  have best: "g l \<le> g (fst m)"
    if "l \<in> set (dict_keys sensor_probs) \<union> set (dict_keys camera_probs)" for l
  proof -
    from that have "l \<in> fst ` set fused_probs" unfolding keys labels .
    then obtain p where p: "p \<in> set fused_probs" "fst p = l" by auto
    with graph have "snd p = g l" by auto
    moreover from le p have "snd p \<le> snd m" by blast
    ultimately show ?thesis using val by simp
  qed
  have gl: "dict_get (fusion_weights fl) ''sensor'' 0.4 * dict_get sensor_probs l 0
              + dict_get (fusion_weights fl) ''camera'' 0.6 * dict_get camera_probs l 0 = g l" for l
    unfolding g ..
  have run: "\<exists>md. predict_fusion set_iter fl sensor_values camera_frame =
      (Inr (fst m, g (fst m), md),
       [SensorPredict, CameraPredict, SensorProbabilities, CameraProbabilities])
      \<and> map_of md ''camera_used'' = Some (MBool True)"
    unfolding predict_fusion_def Let_def sp cp sd cd sum.case prod.case
    unfolding gl all_labels_def [symmetric] fused_probs_def [symmetric]
    by (simp add: mx' look val update_conv')
  with key best show ?thesis by blast
qed



section \<open>Fusion logic: the modes\<close>

lemma example_sm_predict:
  "sm_predict example_sensor_model example_sensor_values = Inr (''Leaning_forward'', 0.8)"
  by (simp add: sm_predict_def example_sensor_model_def example_sensor_values_def
      inverse_transform_def)

lemma example_sm_probabilities:
  "sm_get_all_probabilities example_sensor_model example_sensor_values =
     Inr [(''Correct_posture'', 0.1), (''Leaning_backward'', 0.1), (''Leaning_forward'', 0.8)]"
  by (simp add: sm_get_all_probabilities_def example_sensor_model_def example_sensor_values_def
      py_dict_def)

lemma degenerate_length: "length degenerate_keypoints = 17"
  by (simp add: degenerate_keypoints_def)

lemma example_cm_predict:
  "cm_predict example_camera_model (Some (Suc 0)) = Inr (''Leaning_left'', 0.7)"
  by (simp add: cm_predict_def example_camera_model_def degenerate_pose_features
      inverse_transform_def degenerate_length)

lemma example_cm_predict_nobody:
  "cm_predict example_camera_model (Some 0) = Inl NoPersonDetected"
  by (simp add: cm_predict_def example_camera_model_def)

lemma example_cm_probabilities:
  "cm_get_all_probabilities example_camera_model (Some (Suc 0)) =
     Inr [(''Correct_posture'', 0.3), (''Leaning_left'', 0.7)]"
  by (simp add: cm_get_all_probabilities_def example_camera_model_def degenerate_pose_features
      py_dict_def)

text \<open>The whole fusion path on the concrete system: the fused scores are 0.22, 0.04, 0.32
  and 0.42, and \<^verbatim>\<open>Leaning_left\<close> wins.\<close>

lemma example_fusion_run:
  "predict remdups (example_fusion_logic ''fusion'' 0.7) example_sensor_values (Some (Suc 0)) =
     (Inr (''Leaning_left'', 0.42,
           [(''mode'', MStr ''fusion''),
            (''sensor_label'', MStr ''Leaning_forward''),
            (''sensor_confidence'', MNum 0.8),
            (''camera_used'', MBool True),
            (''camera_label'', MStr ''Leaning_left''),
            (''camera_confidence'', MNum 0.7),
            (''fused_label'', MStr ''Leaning_left''),
            (''fused_confidence'', MNum 0.42),
            (''weights'', MWeights [(''sensor'', 0.4), (''camera'', 0.6)])]),
      [SensorPredict, CameraPredict, SensorProbabilities, CameraProbabilities])"
  by (simp add: predict_def predict_fusion_def example_fusion_logic_def example_sm_predict
      example_cm_predict example_sm_probabilities example_cm_probabilities
      DEFAULT_FUSION_WEIGHTS_def dict_get_def dict_keys_def py_dict_def Let_def)


text \<open>
  C3. In auto mode, for a 7-element sensor vector on which the sensor adapter returns a
  confidence of at least the threshold, \<open>predict\<close> returns the sensor adapter's label and
  confidence with \<^verbatim>\<open>camera_used\<close> false in the metadata, whatever the frame, and the only
  adapter call is the sensor prediction: the camera adapter is not invoked. When the
  confidence is below the threshold and there is no frame, \<open>predict\<close> returns the same
  sensor result with \<^verbatim>\<open>camera_used\<close> false.
\<close>

theorem C3_auto_mode:
  assumes "mode fl = ''auto''" and "length sensor_values = 7"
    and "sm_predict (sensor_model fl) sensor_values = Inr (label, confidence)"
  shows "(confidence \<ge> auto_threshold fl \<longrightarrow>
            predict set_iter fl sensor_values camera_frame =
              (Inr (label, confidence,
                    [(''mode'', MStr ''auto''),
                     (''sensor_confidence'', MNum confidence),
                     (''sensor_label'', MStr label),
                     (''camera_used'', MBool False)]),
               [SensorPredict])
            \<and> CameraPredict \<notin> set (snd (predict set_iter fl sensor_values camera_frame))
            \<and> CameraProbabilities \<notin> set (snd (predict set_iter fl sensor_values camera_frame)))
       \<and> (confidence < auto_threshold fl \<longrightarrow>
            predict set_iter fl sensor_values None =
              (Inr (label, confidence,
                    [(''mode'', MStr ''auto''),
                     (''sensor_confidence'', MNum confidence),
                     (''sensor_label'', MStr label),
                     (''camera_used'', MBool False)]),
               [SensorPredict]))"
  using assms by (simp add: predict_def predict_auto_def)

theorem C3_auto_mode_witness:
  "mode (example_fusion_logic ''auto'' 0.7) = ''auto''
   \<and> length example_sensor_values = 7
   \<and> sm_predict (sensor_model (example_fusion_logic ''auto'' 0.7)) example_sensor_values =
       Inr (''Leaning_forward'', 0.8)
   \<and> (0.8::real) \<ge> auto_threshold (example_fusion_logic ''auto'' 0.7)
   \<and> predict remdups (example_fusion_logic ''auto'' 0.7) example_sensor_values (Some (Suc 0)) =
       (Inr (''Leaning_forward'', 0.8,
             [(''mode'', MStr ''auto''),
              (''sensor_confidence'', MNum 0.8),
              (''sensor_label'', MStr ''Leaning_forward''),
              (''camera_used'', MBool False)]),
        [SensorPredict])
   \<and> (0.8::real) < auto_threshold (example_fusion_logic ''auto'' 0.9)
   \<and> predict remdups (example_fusion_logic ''auto'' 0.9) example_sensor_values None =
       (Inr (''Leaning_forward'', 0.8,
             [(''mode'', MStr ''auto''),
              (''sensor_confidence'', MNum 0.8),
              (''sensor_label'', MStr ''Leaning_forward''),
              (''camera_used'', MBool False)]),
        [SensorPredict])"
proof -
  have m: "mode (example_fusion_logic ''auto'' t) = ''auto''" for t
    by (simp add: example_fusion_logic_def)
  have l: "length example_sensor_values = 7" by (simp add: example_sensor_values_def)
  have s: "sm_predict (sensor_model (example_fusion_logic ''auto'' t)) example_sensor_values =
      Inr (''Leaning_forward'', 0.8)" for t
    by (simp add: example_fusion_logic_def example_sm_predict)
  have t1: "(0.8::real) \<ge> auto_threshold (example_fusion_logic ''auto'' 0.7)"
    by (simp add: example_fusion_logic_def)
  have t2: "(0.8::real) < auto_threshold (example_fusion_logic ''auto'' 0.9)"
    by (simp add: example_fusion_logic_def)
  from C3_auto_mode [OF m [of "0.7"] l s [of "0.7"], of remdups "Some (Suc 0)"] t1
  have a: "predict remdups (example_fusion_logic ''auto'' 0.7) example_sensor_values (Some (Suc 0)) =
       (Inr (''Leaning_forward'', 0.8,
             [(''mode'', MStr ''auto''),
              (''sensor_confidence'', MNum 0.8),
              (''sensor_label'', MStr ''Leaning_forward''),
              (''camera_used'', MBool False)]),
        [SensorPredict])"
    by blast
  from C3_auto_mode [OF m [of "0.9"] l s [of "0.9"], of remdups None] t2
  have b: "predict remdups (example_fusion_logic ''auto'' 0.9) example_sensor_values None =
       (Inr (''Leaning_forward'', 0.8,
             [(''mode'', MStr ''auto''),
              (''sensor_confidence'', MNum 0.8),
              (''sensor_label'', MStr ''Leaning_forward''),
              (''camera_used'', MBool False)]),
        [SensorPredict])"
    by blast
  from m [of "0.7"] l s [of "0.7"] t1 a t2 b show ?thesis by blast
qed

text \<open>
  C10. For a configured mode outside \<^verbatim>\<open>sensor_only\<close>, \<^verbatim>\<open>camera_only\<close>, \<^verbatim>\<open>auto\<close>,
  \<^verbatim>\<open>fusion\<close>, \<open>predict\<close> gives exactly what it gives in \<^verbatim>\<open>sensor_only\<close> mode on the same
  sensor vector, whatever frame either is handed; where the sensor adapter succeeds this is
  its result with the sensor-only metadata, and no error comes from the mode itself.
\<close>

theorem C10_unknown_mode:
  assumes "mode fl \<notin> {''sensor_only'', ''camera_only'', ''auto'', ''fusion''}"
  shows "predict set_iter fl sensor_values camera_frame =
           predict set_iter (fl\<lparr>mode := ''sensor_only''\<rparr>) sensor_values other_frame
       \<and> (\<forall>label confidence.
            sm_predict (sensor_model fl) sensor_values = Inr (label, confidence) \<longrightarrow>
            predict set_iter fl sensor_values camera_frame =
              (Inr (label, confidence,
                    [(''mode'', MStr ''sensor_only''),
                     (''sensor_confidence'', MNum confidence),
                     (''camera_used'', MBool False)]),
               [SensorPredict]))"
  using assms by (simp add: predict_def predict_sensor_only_def)

theorem C10_unknown_mode_witness:
  "mode (example_fusion_logic ''hybrid'' 0.7) \<notin> {''sensor_only'', ''camera_only'', ''auto'', ''fusion''}
   \<and> sm_predict (sensor_model (example_fusion_logic ''hybrid'' 0.7)) example_sensor_values =
       Inr (''Leaning_forward'', 0.8)
   \<and> predict remdups (example_fusion_logic ''hybrid'' 0.7) example_sensor_values (Some (Suc 0)) =
       predict remdups ((example_fusion_logic ''hybrid'' 0.7)\<lparr>mode := ''sensor_only''\<rparr>)
         example_sensor_values None
   \<and> predict remdups (example_fusion_logic ''hybrid'' 0.7) example_sensor_values (Some (Suc 0)) =
       (Inr (''Leaning_forward'', 0.8,
             [(''mode'', MStr ''sensor_only''),
              (''sensor_confidence'', MNum 0.8),
              (''camera_used'', MBool False)]),
        [SensorPredict])"
proof -
  have m: "mode (example_fusion_logic ''hybrid'' 0.7) \<notin>
      {''sensor_only'', ''camera_only'', ''auto'', ''fusion''}"
    by (simp add: example_fusion_logic_def)
  have s: "sm_predict (sensor_model (example_fusion_logic ''hybrid'' 0.7)) example_sensor_values =
      Inr (''Leaning_forward'', 0.8)"
    by (simp add: example_fusion_logic_def example_sm_predict)
  from C10_unknown_mode [OF m, of remdups example_sensor_values "Some (Suc 0)" None] m s
  show ?thesis by blast
qed

text \<open>
  C8. In \<^verbatim>\<open>camera_only\<close> mode with no frame, for a 7-element sensor vector on which the sensor
  adapter answers, \<open>predict\<close> returns the sensor-only result. Its metadata has mode
  \<^verbatim>\<open>sensor_only\<close> and \<^verbatim>\<open>camera_used\<close> false, whereas every result this mode returns on a
  frame has mode \<^verbatim>\<open>camera_only\<close> and \<^verbatim>\<open>camera_used\<close> true: the metadata tells the fallback
  from a camera classification.
\<close>

theorem C8_camera_only_without_frame:
  assumes "mode fl = ''camera_only''" and "length sensor_values = 7"
    and "sm_predict (sensor_model fl) sensor_values = Inr (label, confidence)"
  shows "predict set_iter fl sensor_values None = predict_sensor_only fl sensor_values
       \<and> predict set_iter fl sensor_values None =
           (Inr (label, confidence,
                 [(''mode'', MStr ''sensor_only''),
                  (''sensor_confidence'', MNum confidence),
                  (''camera_used'', MBool False)]),
            [SensorPredict])
       \<and> (\<forall>f l c md. fst (predict set_iter fl sensor_values (Some f)) = Inr (l, c, md) \<longrightarrow>
            map_of md ''mode'' = Some (MStr ''camera_only'')
            \<and> map_of md ''camera_used'' = Some (MBool True))"
  using assms
  by (auto simp: predict_def predict_sensor_only_def predict_camera_only_def
      split: sum.splits)

theorem C8_camera_only_without_frame_witness:
  "mode (example_fusion_logic ''camera_only'' 0.7) = ''camera_only''
   \<and> length example_sensor_values = 7
   \<and> sm_predict (sensor_model (example_fusion_logic ''camera_only'' 0.7)) example_sensor_values =
       Inr (''Leaning_forward'', 0.8)
   \<and> predict remdups (example_fusion_logic ''camera_only'' 0.7) example_sensor_values None =
       (Inr (''Leaning_forward'', 0.8,
             [(''mode'', MStr ''sensor_only''),
              (''sensor_confidence'', MNum 0.8),
              (''camera_used'', MBool False)]),
        [SensorPredict])
   \<and> fst (predict remdups (example_fusion_logic ''camera_only'' 0.7) example_sensor_values
            (Some (Suc 0))) =
       Inr (''Leaning_left'', 0.7,
            [(''mode'', MStr ''camera_only''),
             (''camera_confidence'', MNum 0.7),
             (''camera_used'', MBool True)])
   \<and> map_of [(''mode'', MStr ''camera_only''),
              (''camera_confidence'', MNum 0.7),
              (''camera_used'', MBool True)] ''camera_used'' = Some (MBool True)"
proof -
  have m: "mode (example_fusion_logic ''camera_only'' 0.7) = ''camera_only''"
    by (simp add: example_fusion_logic_def)
  have l: "length example_sensor_values = 7" by (simp add: example_sensor_values_def)
  have s: "sm_predict (sensor_model (example_fusion_logic ''camera_only'' 0.7))
      example_sensor_values = Inr (''Leaning_forward'', 0.8)"
    by (simp add: example_fusion_logic_def example_sm_predict)
  have c: "fst (predict remdups (example_fusion_logic ''camera_only'' 0.7) example_sensor_values
            (Some (Suc 0))) =
       Inr (''Leaning_left'', 0.7,
            [(''mode'', MStr ''camera_only''),
             (''camera_confidence'', MNum 0.7),
             (''camera_used'', MBool True)])"
    by (simp add: predict_def predict_camera_only_def example_fusion_logic_def example_cm_predict)
  from C8_camera_only_without_frame [OF m l s, of remdups] m l s c
  show ?thesis by blast
qed


lemma dict_get_fused:
  assumes "map_of weights ''sensor'' = Some w_sensor" and "map_of weights ''camera'' = Some w_camera"
  shows "(\<lambda>label. dict_get weights ''sensor'' 0.4 * dict_get sensor_probs label 0
                  + dict_get weights ''camera'' 0.6 * dict_get camera_probs label 0) =
         fused_score w_sensor w_camera sensor_probs camera_probs"
  using assms by (auto simp: dict_get_def fused_score_def fun_eq_iff)

text \<open>
  C4. In fusion mode, when both adapters succeed (label and distribution), and for any
  iteration order of the label set: the returned label is one of the labels of the two
  distributions, its fused score is at least the fused score of every such label, and the
  returned confidence is its fused score, where the fused score of a label is the sensor
  weight times its sensor probability plus the camera weight times its camera probability,
  an absent label counting 0. Probabilities and weights are real numbers here.
\<close>

theorem C4_fusion_weighted_sum:
  assumes "mode fl = ''fusion''"
    and "sm_predict (sensor_model fl) sensor_values = Inr (sensor_label, sensor_confidence)"
    and "cm_predict (camera_model fl) (Some frame) = Inr (camera_label, camera_confidence)"
    and "sm_get_all_probabilities (sensor_model fl) sensor_values = Inr sensor_probs"
    and "cm_get_all_probabilities (camera_model fl) (Some frame) = Inr camera_probs"
    and "map_of (fusion_weights fl) ''sensor'' = Some w_sensor"
    and "map_of (fusion_weights fl) ''camera'' = Some w_camera"
    and "set (set_iter (dict_keys sensor_probs @ dict_keys camera_probs)) =
           set (dict_keys sensor_probs @ dict_keys camera_probs)"
  shows "\<exists>final_label md.
           predict set_iter fl sensor_values (Some frame) =
             (Inr (final_label,
                   fused_score w_sensor w_camera sensor_probs camera_probs final_label, md),
              [SensorPredict, CameraPredict, SensorProbabilities, CameraProbabilities])
           \<and> final_label \<in> set (dict_keys sensor_probs) \<union> set (dict_keys camera_probs)
           \<and> (\<forall>l \<in> set (dict_keys sensor_probs) \<union> set (dict_keys camera_probs).
                 fused_score w_sensor w_camera sensor_probs camera_probs l
                 \<le> fused_score w_sensor w_camera sensor_probs camera_probs final_label)"
proof -
  have p: "predict set_iter fl sensor_values (Some frame) =
      predict_fusion set_iter fl sensor_values (Some frame)"
    using assms(1) by (simp add: predict_def)
  have g: "fused_score w_sensor w_camera sensor_probs camera_probs =
      (\<lambda>label. dict_get (fusion_weights fl) ''sensor'' 0.4 * dict_get sensor_probs label 0
                 + dict_get (fusion_weights fl) ''camera'' 0.6 * dict_get camera_probs label 0)"
    using dict_get_fused [OF assms(6,7)] by simp
  from predict_fusion_argmax [where set_iter = set_iter, OF assms(2,3,4,5,8) g] show ?thesis
    unfolding p by blast
qed

theorem C4_fusion_weighted_sum_witness:
  "mode (example_fusion_logic ''fusion'' 0.7) = ''fusion''
   \<and> sm_predict (sensor_model (example_fusion_logic ''fusion'' 0.7)) example_sensor_values =
       Inr (''Leaning_forward'', 0.8)
   \<and> cm_predict (camera_model (example_fusion_logic ''fusion'' 0.7)) (Some (Suc 0)) =
       Inr (''Leaning_left'', 0.7)
   \<and> (\<exists>final_label md.
        predict remdups (example_fusion_logic ''fusion'' 0.7) example_sensor_values (Some (Suc 0)) =
          (Inr (final_label,
                fused_score 0.4 0.6
                  [(''Correct_posture'', 0.1), (''Leaning_backward'', 0.1), (''Leaning_forward'', 0.8)]
                  [(''Correct_posture'', 0.3), (''Leaning_left'', 0.7)] final_label, md),
           [SensorPredict, CameraPredict, SensorProbabilities, CameraProbabilities])
        \<and> (\<forall>l \<in> {''Correct_posture'', ''Leaning_backward'', ''Leaning_forward'', ''Leaning_left''}.
              fused_score 0.4 0.6
                [(''Correct_posture'', 0.1), (''Leaning_backward'', 0.1), (''Leaning_forward'', 0.8)]
                [(''Correct_posture'', 0.3), (''Leaning_left'', 0.7)] l
              \<le> fused_score 0.4 0.6
                [(''Correct_posture'', 0.1), (''Leaning_backward'', 0.1), (''Leaning_forward'', 0.8)]
                [(''Correct_posture'', 0.3), (''Leaning_left'', 0.7)] final_label))"
proof -
  let ?fl = "example_fusion_logic ''fusion'' 0.7"
  let ?sp = "[(''Correct_posture'', 0.1), (''Leaning_backward'', 0.1), (''Leaning_forward'', 0.8 :: real)]"
  let ?cp = "[(''Correct_posture'', 0.3), (''Leaning_left'', 0.7 :: real)]"
  have m: "mode ?fl = ''fusion''" by (simp add: example_fusion_logic_def)
  have s: "sm_predict (sensor_model ?fl) example_sensor_values = Inr (''Leaning_forward'', 0.8)"
    by (simp add: example_fusion_logic_def example_sm_predict)
  have c: "cm_predict (camera_model ?fl) (Some (Suc 0)) = Inr (''Leaning_left'', 0.7)"
    by (simp add: example_fusion_logic_def example_cm_predict)
  have sd: "sm_get_all_probabilities (sensor_model ?fl) example_sensor_values = Inr ?sp"
    by (simp add: example_fusion_logic_def example_sm_probabilities)
  have cd: "cm_get_all_probabilities (camera_model ?fl) (Some (Suc 0)) = Inr ?cp"
    by (simp add: example_fusion_logic_def example_cm_probabilities)
  have ws: "map_of (fusion_weights ?fl) ''sensor'' = Some 0.4"
    by (simp add: example_fusion_logic_def DEFAULT_FUSION_WEIGHTS_def)
  have wc: "map_of (fusion_weights ?fl) ''camera'' = Some 0.6"
    by (simp add: example_fusion_logic_def DEFAULT_FUSION_WEIGHTS_def)
  have it: "set (remdups (dict_keys ?sp @ dict_keys ?cp)) = set (dict_keys ?sp @ dict_keys ?cp)"
    by simp
  have keys: "set (dict_keys ?sp) \<union> set (dict_keys ?cp) =
      {''Correct_posture'', ''Leaning_backward'', ''Leaning_forward'', ''Leaning_left''}"
    by (auto simp: dict_keys_def)
  from C4_fusion_weighted_sum [where set_iter = remdups, OF m s c sd cd ws wc it] m s c
  show ?thesis
    unfolding keys by blast
qed


lemma predict_sensor_only_result:
  assumes "sm_predict (sensor_model fl) sensor_values = Inr (label, confidence)"
  shows "predict_sensor_only fl sensor_values =
           (Inr (label, confidence,
                 [(''mode'', MStr ''sensor_only''),
                  (''sensor_confidence'', MNum confidence),
                  (''camera_used'', MBool False)]),
            [SensorPredict])"
  using assms by (simp add: predict_sensor_only_def)

lemma predict_fusion_fallback:
  assumes "sm_predict (sensor_model fl) sensor_values = Inr (sensor_label, sensor_confidence)"
    and "cm_predict (camera_model fl) camera_frame = Inl e"
  shows "predict_fusion set_iter fl sensor_values camera_frame =
           (Inr (sensor_label, sensor_confidence,
                 [(''mode'', MStr ''fusion''),
                  (''sensor_label'', MStr sensor_label),
                  (''sensor_confidence'', MNum sensor_confidence),
                  (''camera_used'', MBool False),
                  (''camera_error'', MErr e)]),
            [SensorPredict, CameraPredict])"
  using assms by (simp add: predict_fusion_def Let_def)

lemma predict_auto_fallback:
  assumes "sm_predict (sensor_model fl) sensor_values = Inr (sensor_label, sensor_confidence)"
    and "sensor_confidence < auto_threshold fl"
    and "cm_predict (camera_model fl) (Some f) = Inl e"
  shows "predict_auto fl sensor_values (Some f) =
           (Inr (sensor_label, sensor_confidence,
                 [(''mode'', MStr ''auto''),
                  (''sensor_confidence'', MNum sensor_confidence),
                  (''sensor_label'', MStr sensor_label),
                  (''camera_used'', MBool False),
                  (''camera_error'', MErr e)]),
            [SensorPredict, CameraPredict])"
  using assms by (simp add: predict_auto_def Let_def)

lemma predict_auto_returns:
  assumes "sm_predict (sensor_model fl) sensor_values = Inr (sensor_label, sensor_confidence)"
  shows "\<exists>p. fst (predict_auto fl sensor_values camera_frame) = Inr p"
  using assms
  by (simp add: predict_auto_def Let_def split: option.splits sum.splits prod.splits)

lemma predict_auto_no_frame:
  assumes "sm_predict (sensor_model fl) sensor_values = Inr (sensor_label, sensor_confidence)"
  shows "predict_auto fl sensor_values None =
           (Inr (sensor_label, sensor_confidence,
                 [(''mode'', MStr ''auto''),
                  (''sensor_confidence'', MNum sensor_confidence),
                  (''sensor_label'', MStr sensor_label),
                  (''camera_used'', MBool False)]),
            [SensorPredict])"
  using assms by (simp add: predict_auto_def Let_def)

lemma predict_fusion_returns:
  assumes iter: "\<And>xs. set (set_iter xs) = set xs"
    and sensor: "sm_predict (sensor_model fl) sensor_values = Inr (sensor_label, sensor_confidence)"
  shows "\<exists>p. fst (predict_fusion set_iter fl sensor_values camera_frame) = Inr p"
proof (cases "cm_predict (camera_model fl) camera_frame")
  case (Inl e)
  with sensor show ?thesis by (simp add: predict_fusion_fallback)
next
  case (Inr r)
  obtain camera_label camera_confidence where r: "r = (camera_label, camera_confidence)"
    by (cases r)
  obtain sensor_probs where sd:
    "sm_get_all_probabilities (sensor_model fl) sensor_values = Inr sensor_probs"
    using sm_predict_probabilities [OF sensor] by blast
  obtain camera_probs where cd:
    "cm_get_all_probabilities (camera_model fl) camera_frame = Inr camera_probs"
    using cm_predict_probabilities [OF Inr] by blast
  have "\<exists>final_label md.
           predict_fusion set_iter fl sensor_values camera_frame =
             (Inr (final_label,
                   dict_get (fusion_weights fl) ''sensor'' 0.4 * dict_get sensor_probs final_label 0
                   + dict_get (fusion_weights fl) ''camera'' 0.6 * dict_get camera_probs final_label 0,
                   md),
              [SensorPredict, CameraPredict, SensorProbabilities, CameraProbabilities])"
    using predict_fusion_argmax [where set_iter = set_iter, OF sensor Inr [unfolded r] sd cd iter refl]
    by blast
  then show ?thesis by auto
qed

lemma predict_sensor_failure:
  assumes "sm_predict (sensor_model fl) sensor_values = Inl e"
    and "\<not> (mode fl = ''camera_only'' \<and> camera_frame \<noteq> None)"
  shows "fst (predict set_iter fl sensor_values camera_frame) = Inl e"
  using assms
  by (auto simp: predict_def predict_sensor_only_def predict_auto_def predict_fusion_def)

text \<open>
  C5, amended. Whenever the sensor adapter succeeds, \<open>predict\<close> returns a result in every
  case but \<^verbatim>\<open>camera_only\<close> mode with a frame. With no frame it returns the sensor result
  with \<^verbatim>\<open>camera_used\<close> false. When the camera prediction fails on a frame in fusion mode, or
  in auto mode below the threshold, it returns the sensor result with \<^verbatim>\<open>camera_used\<close> false
  and the error under \<^verbatim>\<open>camera_error\<close>. A failure of the sensor adapter is the outcome of
  \<open>predict\<close> whenever the sensor adapter is consulted. In \<^verbatim>\<open>camera_only\<close> mode with a frame
  the sensor adapter is not consulted, and a failure of the camera adapter is the outcome of
  \<open>predict\<close>.
\<close>

theorem C5_fallback_policy:
  assumes "\<And>xs. set (set_iter xs) = set xs"
  shows "(sm_predict (sensor_model fl) sensor_values = Inr (sensor_label, sensor_confidence)
          \<and> \<not> (mode fl = ''camera_only'' \<and> camera_frame \<noteq> None) \<longrightarrow>
            (\<exists>p. fst (predict set_iter fl sensor_values camera_frame) = Inr p))
       \<and> (sm_predict (sensor_model fl) sensor_values = Inr (sensor_label, sensor_confidence)
          \<and> camera_frame = None \<longrightarrow>
            (\<exists>md. fst (predict set_iter fl sensor_values camera_frame) =
                     Inr (sensor_label, sensor_confidence, md)
                  \<and> map_of md ''camera_used'' = Some (MBool False)))
       \<and> (sm_predict (sensor_model fl) sensor_values = Inr (sensor_label, sensor_confidence)
          \<and> (mode fl = ''fusion'' \<or> mode fl = ''auto'' \<and> sensor_confidence < auto_threshold fl)
          \<and> camera_frame = Some f
          \<and> cm_predict (camera_model fl) (Some f) = Inl e \<longrightarrow>
            (\<exists>md. fst (predict set_iter fl sensor_values camera_frame) =
                     Inr (sensor_label, sensor_confidence, md)
                  \<and> map_of md ''camera_used'' = Some (MBool False)
                  \<and> map_of md ''camera_error'' = Some (MErr e)))
       \<and> (sm_predict (sensor_model fl) sensor_values = Inl e
          \<and> \<not> (mode fl = ''camera_only'' \<and> camera_frame \<noteq> None) \<longrightarrow>
            fst (predict set_iter fl sensor_values camera_frame) = Inl e)
       \<and> (mode fl = ''camera_only'' \<and> camera_frame = Some f
          \<and> cm_predict (camera_model fl) (Some f) = Inl e \<longrightarrow>
            fst (predict set_iter fl sensor_values camera_frame) = Inl e)"
proof (intro conjI impI)
  assume a: "sm_predict (sensor_model fl) sensor_values = Inr (sensor_label, sensor_confidence)
          \<and> \<not> (mode fl = ''camera_only'' \<and> camera_frame \<noteq> None)"
  then have s: "sm_predict (sensor_model fl) sensor_values = Inr (sensor_label, sensor_confidence)"
    by simp
  show "\<exists>p. fst (predict set_iter fl sensor_values camera_frame) = Inr p"
    using a predict_auto_returns [OF s, of camera_frame]
      predict_fusion_returns [of set_iter, OF assms s, of camera_frame]
    by (auto simp: predict_def predict_sensor_only_result [OF s])
next
  assume a: "sm_predict (sensor_model fl) sensor_values = Inr (sensor_label, sensor_confidence)
          \<and> camera_frame = None"
  then have s: "sm_predict (sensor_model fl) sensor_values = Inr (sensor_label, sensor_confidence)"
    by simp
  show "\<exists>md. fst (predict set_iter fl sensor_values camera_frame) =
                     Inr (sensor_label, sensor_confidence, md)
                  \<and> map_of md ''camera_used'' = Some (MBool False)"
    using a
    by (simp add: predict_def predict_sensor_only_result [OF s] predict_auto_no_frame [OF s])
next
  assume a: "sm_predict (sensor_model fl) sensor_values = Inr (sensor_label, sensor_confidence)
          \<and> (mode fl = ''fusion'' \<or> mode fl = ''auto'' \<and> sensor_confidence < auto_threshold fl)
          \<and> camera_frame = Some f
          \<and> cm_predict (camera_model fl) (Some f) = Inl e"
  then have s: "sm_predict (sensor_model fl) sensor_values = Inr (sensor_label, sensor_confidence)"
    and c: "cm_predict (camera_model fl) (Some f) = Inl e" and fr: "camera_frame = Some f"
    by simp_all
  from a have "mode fl = ''fusion'' \<or> mode fl = ''auto'' \<and> sensor_confidence < auto_threshold fl"
    by simp
  then show "\<exists>md. fst (predict set_iter fl sensor_values camera_frame) =
                     Inr (sensor_label, sensor_confidence, md)
                  \<and> map_of md ''camera_used'' = Some (MBool False)
                  \<and> map_of md ''camera_error'' = Some (MErr e)"
  proof
    assume "mode fl = ''fusion''"
    then show ?thesis unfolding fr
      by (simp add: predict_def predict_fusion_fallback [OF s c])
  next
    assume "mode fl = ''auto'' \<and> sensor_confidence < auto_threshold fl"
    then show ?thesis unfolding fr
      by (simp add: predict_def predict_auto_fallback [OF s _ c])
  qed
next
  assume "sm_predict (sensor_model fl) sensor_values = Inl e
          \<and> \<not> (mode fl = ''camera_only'' \<and> camera_frame \<noteq> None)"
  then show "fst (predict set_iter fl sensor_values camera_frame) = Inl e"
    using predict_sensor_failure by blast
next
  assume "mode fl = ''camera_only'' \<and> camera_frame = Some f
          \<and> cm_predict (camera_model fl) (Some f) = Inl e"
  then show "fst (predict set_iter fl sensor_values camera_frame) = Inl e"
    by (simp add: predict_def predict_camera_only_def)
qed

text \<open>
  C5 as stated fails: in \<^verbatim>\<open>camera_only\<close> mode, on a frame in which nobody is detected,
  \<open>predict\<close> ends in the camera adapter's error although the sensor adapter succeeds on
  the sensor vector.
\<close>

theorem C5_camera_only_counterexample:
  "sm_predict (sensor_model (example_fusion_logic ''camera_only'' 0.7)) example_sensor_values =
     Inr (''Leaning_forward'', 0.8)
   \<and> predict remdups (example_fusion_logic ''camera_only'' 0.7) example_sensor_values (Some 0) =
       (Inl NoPersonDetected, [CameraPredict])"
  by (simp add: predict_def predict_camera_only_def example_fusion_logic_def example_sm_predict
      example_cm_predict_nobody)


theorem C5_fallback_policy_witness:
  "(\<forall>xs :: string list. set (remdups xs) = set xs)
   \<and> sm_predict (sensor_model (example_fusion_logic ''fusion'' 0.7)) example_sensor_values =
       Inr (''Leaning_forward'', 0.8)
   \<and> cm_predict (camera_model (example_fusion_logic ''fusion'' 0.7)) (Some 0) =
       Inl NoPersonDetected
   \<and> (\<exists>p. fst (predict remdups (example_fusion_logic ''fusion'' 0.7) example_sensor_values
                  (Some 0)) = Inr p)
   \<and> (\<exists>md. fst (predict remdups (example_fusion_logic ''fusion'' 0.7) example_sensor_values
                   (Some 0)) = Inr (''Leaning_forward'', 0.8, md)
           \<and> map_of md ''camera_used'' = Some (MBool False)
           \<and> map_of md ''camera_error'' = Some (MErr NoPersonDetected))
   \<and> (\<exists>md. fst (predict remdups (example_fusion_logic ''camera_only'' 0.7) example_sensor_values
                   None) = Inr (''Leaning_forward'', 0.8, md)
           \<and> map_of md ''camera_used'' = Some (MBool False))
   \<and> sm_predict (sensor_model (example_fusion_logic ''auto'' 0.7)) [1, 2, 3] =
       Inl (WrongSensorCount 3)
   \<and> fst (predict remdups (example_fusion_logic ''auto'' 0.7) [1, 2, 3] None) =
       Inl (WrongSensorCount 3)
   \<and> fst (predict remdups (example_fusion_logic ''camera_only'' 0.7) example_sensor_values
            (Some 0)) = Inl NoPersonDetected"
proof -
  have it: "set (remdups xs) = set xs" for xs :: "string list" by simp
  have s: "sm_predict (sensor_model (example_fusion_logic m 0.7)) example_sensor_values =
      Inr (''Leaning_forward'', 0.8)" for m
    by (simp add: example_fusion_logic_def example_sm_predict)
  have c: "cm_predict (camera_model (example_fusion_logic m 0.7)) (Some 0) = Inl NoPersonDetected"
    for m
    by (simp add: example_fusion_logic_def example_cm_predict_nobody)
  have bad: "sm_predict (sensor_model (example_fusion_logic ''auto'' 0.7)) [1, 2, 3] =
      Inl (WrongSensorCount 3)"
    by (simp add: example_fusion_logic_def example_sensor_model_def sm_predict_def)
  have mf: "mode (example_fusion_logic ''fusion'' 0.7) = ''fusion''"
    by (simp add: example_fusion_logic_def)
  have mc: "mode (example_fusion_logic ''camera_only'' 0.7) = ''camera_only''"
    by (simp add: example_fusion_logic_def)
  have ma: "mode (example_fusion_logic ''auto'' 0.7) = ''auto''"
    by (simp add: example_fusion_logic_def)
  note w1 = C5_fallback_policy [where set_iter = remdups
      and fl = "example_fusion_logic ''fusion'' 0.7" and sensor_values = example_sensor_values
      and sensor_label = "''Leaning_forward''" and sensor_confidence = "0.8"
      and camera_frame = "Some 0" and f = 0 and e = NoPersonDetected, OF it]
  note w2 = C5_fallback_policy [where set_iter = remdups
      and fl = "example_fusion_logic ''camera_only'' 0.7" and sensor_values = example_sensor_values
      and sensor_label = "''Leaning_forward''" and sensor_confidence = "0.8"
      and camera_frame = None and f = 0 and e = NoPersonDetected, OF it]
  note w3 = C5_fallback_policy [where set_iter = remdups
      and fl = "example_fusion_logic ''auto'' 0.7" and sensor_values = "[1, 2, 3]"
      and sensor_label = "''Leaning_forward''" and sensor_confidence = "0.8"
      and camera_frame = None and f = 0 and e = "WrongSensorCount 3", OF it]
  note w4 = C5_fallback_policy [where set_iter = remdups
      and fl = "example_fusion_logic ''camera_only'' 0.7" and sensor_values = example_sensor_values
      and sensor_label = "''Leaning_forward''" and sensor_confidence = "0.8"
      and camera_frame = "Some 0" and f = 0 and e = NoPersonDetected, OF it]
  have a: "\<exists>p. fst (predict remdups (example_fusion_logic ''fusion'' 0.7) example_sensor_values
                  (Some 0)) = Inr p"
    using w1 s [of "''fusion''"] mf by simp
  have b: "\<exists>md. fst (predict remdups (example_fusion_logic ''fusion'' 0.7) example_sensor_values
                   (Some 0)) = Inr (''Leaning_forward'', 0.8, md)
           \<and> map_of md ''camera_used'' = Some (MBool False)
           \<and> map_of md ''camera_error'' = Some (MErr NoPersonDetected)"
    using w1 s [of "''fusion''"] c [of "''fusion''"] mf by blast
  have d: "\<exists>md. fst (predict remdups (example_fusion_logic ''camera_only'' 0.7) example_sensor_values
                   None) = Inr (''Leaning_forward'', 0.8, md)
           \<and> map_of md ''camera_used'' = Some (MBool False)"
    using w2 s [of "''camera_only''"] by blast
  have e: "fst (predict remdups (example_fusion_logic ''auto'' 0.7) [1, 2, 3] None) =
       Inl (WrongSensorCount 3)"
    using w3 bad ma by simp
  have f: "fst (predict remdups (example_fusion_logic ''camera_only'' 0.7) example_sensor_values
            (Some 0)) = Inl NoPersonDetected"
    using w4 c [of "''camera_only''"] mc by blast
  from it s [of "''fusion''"] c [of "''fusion''"] a b d bad e f show ?thesis by blast
qed



section \<open>Frame source: a device that cannot be opened\<close>

lemma degraded_step:
  assumes "degraded cm"
  shows "degraded (snd (camera_step c cm)) \<and> degraded_answer (fst (camera_step c cm))"
  using assms
  by (cases c)
    (simp_all add: camera_step_def degraded_def get_frame_def capture_for_inference_def
      is_available_def get_status_def release_def capture_loop_turn_def Let_def)

lemma degraded_run:
  assumes "degraded cm"
  shows "degraded (snd (camera_run calls cm))
       \<and> (\<forall>a \<in> set (fst (camera_run calls cm)). degraded_answer a)"
  using assms
proof (induction calls arbitrary: cm)
  case Nil
  then show ?case by simp
next
  case (Cons c calls)
  from degraded_step [OF Cons.prems, of c]
  have d: "degraded (snd (camera_step c cm))" and a: "degraded_answer (fst (camera_step c cm))"
    by simp_all
  from Cons.IH [OF d] a show ?case
    by (auto split: prod.splits)
qed

lemma new_camera_manager_degraded:
  assumes "open_fails open_device (int_or index CAMERA_INDEX)"
  shows "degraded (new_camera_manager open_device index w h)"
  using assms
  by (auto simp: open_fails_def new_camera_manager_def init_camera_def init_camera_try_def
      degraded_def split: sum.splits)

lemma degraded_capture:
  assumes "degraded cm"
  shows "fst (capture_for_inference cm) = None"
  using assms by (simp add: degraded_def capture_for_inference_def Let_def)

lemma degraded_status:
  assumes "degraded cm"
  shows "\<not> st_is_available (get_status cm) \<and> \<not> is_available cm"
  using assms by (simp add: degraded_def get_status_def is_available_def)

text \<open>
  C7. When opening the capture device fails (the open call raises, or the handle it gives
  is not opened), the construction of the camera manager still gives a manager; its status
  reports that the camera is not available; and after any sequence of later calls and
  turns of the background loop, \<^verbatim>\<open>capture_for_inference\<close> returns \<^verbatim>\<open>None\<close> and the status
  still reports not available. Every answer on the way is that of a manager without a
  camera.
\<close>

theorem C7_device_open_failure:
  assumes "open_fails open_device (int_or index CAMERA_INDEX)"
  shows "\<not> st_is_available (get_status (new_camera_manager open_device index w h))
       \<and> (\<forall>calls. fst (capture_for_inference
                         (snd (camera_run calls (new_camera_manager open_device index w h)))) = None
                 \<and> \<not> st_is_available
                       (get_status (snd (camera_run calls (new_camera_manager open_device index w h)))))
       \<and> (\<forall>calls a. a \<in> set (fst (camera_run calls (new_camera_manager open_device index w h)))
             \<longrightarrow> degraded_answer a)"
proof -
  have d: "degraded (new_camera_manager open_device index w h)"
    using assms by (rule new_camera_manager_degraded)
  have r: "degraded (snd (camera_run calls (new_camera_manager open_device index w h)))" for calls
    using degraded_run [OF d] by blast
  show ?thesis
    using degraded_status [OF d] degraded_status [OF r] degraded_capture [OF r] degraded_run [OF d]
    by blast
qed

theorem C7_device_open_failure_witness:
  "open_fails no_device (int_or None CAMERA_INDEX)
   \<and> \<not> st_is_available (get_status (new_camera_manager no_device None None None :: nat camera_manager))
   \<and> fst (capture_for_inference
            (snd (camera_run [CallCaptureForInference, Background (Read (Some 5)), CallGetStatus]
                    (new_camera_manager no_device None None None :: nat camera_manager)))) = None
   \<and> Frame None \<in> set (fst (camera_run [CallCaptureForInference]
                    (new_camera_manager no_device None None None :: nat camera_manager)))
   \<and> degraded_answer (Frame None :: nat camera_answer)"
proof -
  have o: "open_fails no_device (int_or None CAMERA_INDEX)"
    by (simp add: open_fails_def no_device_def)
  have m: "(Frame None :: nat camera_answer) \<in> set (fst (camera_run [CallCaptureForInference]
                    (new_camera_manager no_device None None None :: nat camera_manager)))"
    by (simp add: camera_step_def capture_for_inference_def new_camera_manager_def init_camera_def
        init_camera_try_def no_device_def Let_def)
  from C7_device_open_failure [OF o, where 'a = nat and w = None and h = None] o m
  show ?thesis by blast
qed

text \<open>The same on a device whose open call raises.\<close>

lemma broken_device_run:
  "fst (camera_run [CallCaptureForInference, Background (Read (Some 5)), CallGetFrame,
                    CallIsAvailable, CallCaptureForInference]
          (new_camera_manager broken_device None None None :: nat camera_manager)) =
     [Frame None, Done, Frame None, Available False, Frame None]"
  by (simp add: camera_step_def capture_for_inference_def get_frame_def is_available_def
      capture_loop_turn_def new_camera_manager_def init_camera_def init_camera_try_def
      broken_device_def Let_def)




section \<open>The prediction endpoint and the configured warning threshold\<close>

text \<open>The endpoint reads the mode, the auto threshold and the fusion weights from the
  store, never the warning threshold: a request is answered the same whatever threshold
  the store holds.\<close>

lemma api_predict_ignores_warning_threshold:
  "api_predict set_iter (store\<lparr>cs_warning_threshold := t\<rparr>) request st =
     api_predict set_iter store request st"
proof -
  have m: "cs_mode (store\<lparr>cs_warning_threshold := t\<rparr>) = cs_mode store"
    and a: "cs_auto_threshold (store\<lparr>cs_warning_threshold := t\<rparr>) = cs_auto_threshold store"
    and w: "cs_fusion_weights (store\<lparr>cs_warning_threshold := t\<rparr>) = cs_fusion_weights store"
    by simp_all
  show ?thesis unfolding api_predict_def m a w ..
qed

lemma serve_ignores_warning_threshold:
  "serve set_iter (store\<lparr>cs_warning_threshold := t\<rparr>) requests st =
     serve set_iter store requests st"
  by (induction requests arbitrary: st) (simp_all add: api_predict_ignores_warning_threshold)

lemma example_api_predict:
  "api_predict remdups example_store example_request
     (cm, example_fusion_logic m t, tracker) =
     (case warning_step ''Leaning_forward'' tracker of
        (warning_flag, tracker1) \<Rightarrow>
          (Ok ''Leaning_forward'' 0.8 warning_flag ''sensor_only''
             [(''mode'', MStr ''sensor_only''),
              (''sensor_confidence'', MNum 0.8),
              (''camera_used'', MBool False)],
           cm, example_fusion_logic ''sensor_only'' DEFAULT_AUTO_THRESHOLD, tracker1))"
proof -
  have v: "extract_sensor_values (the example_request) sensor_keys = Inr example_sensor_values"
    by (simp add: example_request_def sensor_keys_def example_sensor_values_def)
  have u: "update_config (Some ''sensor_only'') (Some DEFAULT_AUTO_THRESHOLD)
             (Some DEFAULT_FUSION_WEIGHTS) (example_fusion_logic m t) =
           example_fusion_logic ''sensor_only'' DEFAULT_AUTO_THRESHOLD"
    by (simp add: update_config_def example_fusion_logic_def DEFAULT_FUSION_WEIGHTS_def)
  have p: "predict remdups (example_fusion_logic ''sensor_only'' DEFAULT_AUTO_THRESHOLD)
             example_sensor_values None =
           (Inr (''Leaning_forward'', 0.8,
                 [(''mode'', MStr ''sensor_only''),
                  (''sensor_confidence'', MNum 0.8),
                  (''camera_used'', MBool False)]),
            [SensorPredict])"
    by (simp add: predict_def predict_sensor_only_def example_fusion_logic_def example_sm_predict)
  have d: "the example_request \<noteq> []" "example_request = Some (the example_request)"
    by (simp_all add: example_request_def)
  show ?thesis
    apply (subst d(2))
    apply (simp add: api_predict_def d(1) v example_store_def u p Let_def split: prod.splits)
    done
qed

text \<open>
  C6, evaluated on the code. With a warning threshold of 3 in the configuration store
  (which \<^verbatim>\<open>GET /config\<close> reports), five requests in a row that are classified as the bad
  posture \<^verbatim>\<open>Leaning_forward\<close> are answered with the warning flags false, false, false,
  false, true: the count is compared with the 5 of the tracker, not with the configured 3.
\<close>

theorem C6_configured_threshold_ignored:
  "cs_warning_threshold example_store = Some 3
   \<and> reported_warning_threshold example_store empty_store = 3
   \<and> is_bad_posture ''Leaning_forward''
   \<and> serve remdups example_store
        [example_request, example_request, example_request, example_request, example_request]
        example_system =
       [Ok ''Leaning_forward'' 0.8 False ''sensor_only''
          [(''mode'', MStr ''sensor_only''), (''sensor_confidence'', MNum 0.8),
           (''camera_used'', MBool False)],
        Ok ''Leaning_forward'' 0.8 False ''sensor_only''
          [(''mode'', MStr ''sensor_only''), (''sensor_confidence'', MNum 0.8),
           (''camera_used'', MBool False)],
        Ok ''Leaning_forward'' 0.8 False ''sensor_only''
          [(''mode'', MStr ''sensor_only''), (''sensor_confidence'', MNum 0.8),
           (''camera_used'', MBool False)],
        Ok ''Leaning_forward'' 0.8 False ''sensor_only''
          [(''mode'', MStr ''sensor_only''), (''sensor_confidence'', MNum 0.8),
           (''camera_used'', MBool False)],
        Ok ''Leaning_forward'' 0.8 True ''sensor_only''
          [(''mode'', MStr ''sensor_only''), (''sensor_confidence'', MNum 0.8),
           (''camera_used'', MBool False)]]"
proof -
  have b: "is_bad_posture ''Leaning_forward''"
    by (simp add: is_bad_posture_def BAD_POSTURES_def)
  have c: "cs_warning_threshold example_store = Some 3
      \<and> reported_warning_threshold example_store empty_store = 3"
    by (simp add: example_store_def reported_warning_threshold_def)
  have s: "serve remdups example_store
        [example_request, example_request, example_request, example_request, example_request]
        example_system =
       [Ok ''Leaning_forward'' 0.8 False ''sensor_only''
          [(''mode'', MStr ''sensor_only''), (''sensor_confidence'', MNum 0.8),
           (''camera_used'', MBool False)],
        Ok ''Leaning_forward'' 0.8 False ''sensor_only''
          [(''mode'', MStr ''sensor_only''), (''sensor_confidence'', MNum 0.8),
           (''camera_used'', MBool False)],
        Ok ''Leaning_forward'' 0.8 False ''sensor_only''
          [(''mode'', MStr ''sensor_only''), (''sensor_confidence'', MNum 0.8),
           (''camera_used'', MBool False)],
        Ok ''Leaning_forward'' 0.8 False ''sensor_only''
          [(''mode'', MStr ''sensor_only''), (''sensor_confidence'', MNum 0.8),
           (''camera_used'', MBool False)],
        Ok ''Leaning_forward'' 0.8 True ''sensor_only''
          [(''mode'', MStr ''sensor_only''), (''sensor_confidence'', MNum 0.8),
           (''camera_used'', MBool False)]]"
    unfolding example_system_def
    by (simp add: example_api_predict warning_step_first [OF b] warning_step_same_below [OF b]
        warning_step_same_reach [OF b])
  from b c s show ?thesis by blast
qed


end
